theory Spec2Isabelle
  imports Main
begin

section \<open>Rectangles (the part of \<open>pygame.Rect\<close> that \<open>scene.py\<close> uses)\<close>

text \<open>
  A \<open>pygame.Rect\<close> is four integers. The scene reads the virtual attributes
  \<open>left\<close>, \<open>right\<close>, \<open>top\<close>, \<open>bottom\<close> and \<open>centery\<close>, assigns \<open>x\<close> and \<open>y\<close>, and
  calls \<open>colliderect\<close>. The overlap test is the one of pygame's rectangle module: a
  rectangle of zero width or height meets nothing, and two rectangles meet when their
  spans overlap strictly on both axes.
\<close>

record rect =
  rect_x :: int
  rect_y :: int
  rect_w :: int
  rect_h :: int

definition Rect :: "int \<Rightarrow> int \<Rightarrow> int \<Rightarrow> int \<Rightarrow> rect" where
  "Rect px py pw ph = \<lparr>rect_x = px, rect_y = py, rect_w = pw, rect_h = ph\<rparr>"

definition rect_left :: "rect \<Rightarrow> int" where
  "rect_left r = rect_x r"

definition rect_right :: "rect \<Rightarrow> int" where
  "rect_right r = rect_x r + rect_w r"

definition rect_top :: "rect \<Rightarrow> int" where
  "rect_top r = rect_y r"

definition rect_bottom :: "rect \<Rightarrow> int" where
  "rect_bottom r = rect_y r + rect_h r"

definition rect_centery :: "rect \<Rightarrow> int" where
  "rect_centery r = rect_y r + rect_h r div 2"

definition colliderect :: "rect \<Rightarrow> rect \<Rightarrow> bool" where
  "colliderect a b =
     (if rect_w a = 0 \<or> rect_h a = 0 \<or> rect_w b = 0 \<or> rect_h b = 0 then False
      else min (rect_x a) (rect_x a + rect_w a) < max (rect_x b) (rect_x b + rect_w b)
         \<and> min (rect_y a) (rect_y a + rect_h a) < max (rect_y b) (rect_y b + rect_h b)
         \<and> max (rect_x a) (rect_x a + rect_w a) > min (rect_x b) (rect_x b + rect_w b)
         \<and> max (rect_y a) (rect_y a + rect_h a) > min (rect_y b) (rect_y b + rect_h b))"

section \<open>Events\<close>

text \<open>
  An input event carries a kind and, for the two key kinds, a key code. The scene tells
  apart \<open>QUIT\<close>, \<open>KEYDOWN\<close> and \<open>KEYUP\<close>, and the keys W, S, Up, Down and Escape.
\<close>

datatype key = K_w | K_s | K_UP | K_DOWN | K_ESCAPE | K_other nat

datatype event = QUIT | KEYDOWN key | KEYUP key | OTHER_EVENT nat

section \<open>The base class \<open>Scene\<close>\<close>

text \<open>
  \<open>Scene.__init__\<close> stores the path of the soundtrack in \<open>_soundtrack\<close>;
  \<open>GameScreen.__init__\<close> then replaces it by a \<open>pygame.mixer.Sound\<close> object. The type of
  the field is therefore a parameter of the record.
\<close>

record 'snd scene =
  is_valid :: bool
  soundtrack :: 'snd
  frame_rate :: int

text \<open>
  \<open>Scene.process_event\<close>: two independent tests, each printing a line and clearing
  the validity flag. The printed lines are returned next to the scene.
\<close>

definition Scene_process_event ::
  "event \<Rightarrow> ('snd, 'a) scene_scheme \<Rightarrow> string list \<times> ('snd, 'a) scene_scheme" where
  "Scene_process_event ev s =
     (let (out1, s1) = (if ev = QUIT then ([''Good Bye!''], s\<lparr>is_valid := False\<rparr>) else ([], s));
          (out2, s2) = (if ev = KEYDOWN K_ESCAPE then ([''Bye bye!''], s1\<lparr>is_valid := False\<rparr>)
                        else ([], s1))
      in (out1 @ out2, s2))"

text \<open>
  \<open>PressAnyKeyToExitScene.process_event\<close> and \<open>GameOver.process_event\<close> have the same
  body: the base handler first, then any key-down clears the validity flag.
\<close>

definition PressAnyKeyToExitScene_process_event ::
  "event \<Rightarrow> ('snd, 'a) scene_scheme \<Rightarrow> string list \<times> ('snd, 'a) scene_scheme" where
  "PressAnyKeyToExitScene_process_event ev s =
     (let (out, s1) = Scene_process_event ev s
      in (out, case ev of KEYDOWN k \<Rightarrow> s1\<lparr>is_valid := False\<rparr> | _ \<Rightarrow> s1))"

subsection \<open>\<open>Scene.start_scene\<close> and the music channel\<close>






section \<open>\<open>GameScreen\<close>\<close>

text \<open>
  The record has the fields of the class that \<open>update_scene\<close> and \<open>process_event\<close> read
  or write (\<open>_size\<close> is \<open>surface_size\<close>); the screen, the background, the countdown number
  and its timer, which neither method touches, are left out. The one-shot sound effects
  are logged in \<open>sounds\<close>, in the order they are played. The field
  \<open>countdown_start_time\<close> does not exist until the first countdown starts, so it is an
  option, and reading it while it is missing is the \<open>AttributeError\<close> Python raises.
\<close>

datatype sound = Countdown_sound | Paddle_sound | Score_sound

datatype error = AttributeError

text \<open>\<open>pygame.mixer.Sound(path)\<close>: the sound object made from the file at \<open>path\<close>.\<close>

datatype mixer_sound = Sound string

record game_screen = "mixer_sound scene" +
  surface_size :: "int \<times> int"
  ball :: rect
  ball_velocity :: "int \<times> int"
  player :: rect
  ai :: rect
  player_move_up :: bool
  player_move_down :: bool
  player_speed :: int
  ai_speed :: int
  ai_delay :: int
  player_score :: int
  ai_score :: int
  countdown_played :: bool
  countdown_start_time :: "int option"
  serve :: bool
  round_delay :: int
  wait_after_score :: bool
  score_time :: int
  sounds :: "sound list"

definition GameScreen_init :: "int \<times> int \<Rightarrow> game_screen" where
  "GameScreen_init sz =
     \<lparr>is_valid = True, soundtrack = Sound ''assets/sounds/gameplay.mp3'', frame_rate = 60,
      surface_size = sz,
      ball = Rect (fst sz div 2 - 15) (snd sz div 2 - 15) 30 30,
      ball_velocity = (8, 8),
      player = Rect 30 (snd sz div 2 - 80) 20 180,
      ai = Rect (fst sz - 40) (snd sz div 2 - 80) 20 180,
      player_move_up = False, player_move_down = False,
      player_speed = 12, ai_speed = 9, ai_delay = 0,
      player_score = 0, ai_score = 0,
      countdown_played = False, countdown_start_time = None,
      serve = True, round_delay = 1000, wait_after_score = False, score_time = 0,
      sounds = []\<rparr>"

subsection \<open>What one call of \<open>update_scene\<close> reads from outside\<close>

text \<open>
  Every clock reading, the length of the countdown sound in milliseconds
  (\<open>int(get_length() * 1000)\<close>) and every random draw of one call are inputs. The two
  resets of the ball that one call can make each read the clock and draw two signs.
\<close>

record frame_inputs =
  ticks_countdown_start :: int
  ticks_serve :: int
  ticks_wait :: int
  sound_length :: int
  ai_random :: int
  ticks_reset1 :: int
  choice1 :: "bool \<times> bool"
  ticks_reset2 :: int
  choice2 :: "bool \<times> bool"

text \<open>\<open>random.choice([-1, 1])\<close>, decided by a coin.\<close>

definition random_choice :: "bool \<Rightarrow> int" where
  "random_choice c = (if c then 1 else - 1)"

text \<open>\<open>random.randint(-40, 40)\<close> returns a number of that range.\<close>

definition inputs_ok :: "frame_inputs \<Rightarrow> bool" where
  "inputs_ok e = (- 40 \<le> ai_random e \<and> ai_random e \<le> 40)"

subsection \<open>The helpers \<open>_reset_ball\<close>, \<open>_reset_player\<close>, \<open>_reset_ai\<close>\<close>

definition reset_ball :: "bool \<times> bool \<Rightarrow> int \<Rightarrow> game_screen \<Rightarrow> game_screen" where
  "reset_ball cs now g =
     g\<lparr>ball := (ball g)\<lparr>rect_x := fst (surface_size g) div 2 - 15,
                         rect_y := snd (surface_size g) div 2 - 15\<rparr>,
       ball_velocity := (8 * random_choice (fst cs), 8 * random_choice (snd cs)),
       wait_after_score := True,
       score_time := now\<rparr>"

definition reset_player :: "game_screen \<Rightarrow> game_screen" where
  "reset_player g =
     g\<lparr>player := (player g)\<lparr>rect_x := 30, rect_y := snd (surface_size g) div 2 - 80\<rparr>\<rparr>"

definition reset_ai :: "game_screen \<Rightarrow> game_screen" where
  "reset_ai g =
     g\<lparr>ai := (ai g)\<lparr>rect_x := fst (surface_size g) - 40,
                     rect_y := snd (surface_size g) div 2 - 80\<rparr>\<rparr>"

subsection \<open>The steps of \<open>update_scene\<close>, in the order of the source\<close>

text \<open>
  The first two steps can return from \<open>update_scene\<close>: a step yields \<open>Return\<close> with the
  state the call ends in, \<open>Continue\<close> with the state the next step starts from, or
  \<open>Raise\<close>.
\<close>

datatype 'a flow = Return 'a | Continue 'a | Raise error

definition countdown_step :: "frame_inputs \<Rightarrow> game_screen \<Rightarrow> game_screen flow" where
  "countdown_step e g =
     (if serve g then
        (let g1 = (if \<not> countdown_played g
                   then g\<lparr>sounds := sounds g @ [Countdown_sound],
                          countdown_start_time := Some (ticks_countdown_start e),
                          countdown_played := True\<rparr>
                   else g)
         in case countdown_start_time g1 of
              None \<Rightarrow> Raise AttributeError
            | Some started \<Rightarrow>
                if ticks_serve e - started < sound_length e then Return g1
                else Continue (g1\<lparr>serve := False\<rparr>))
      else Continue g)"

definition round_delay_step :: "frame_inputs \<Rightarrow> game_screen \<Rightarrow> game_screen flow" where
  "round_delay_step e g =
     (if wait_after_score g then
        (if ticks_wait e - score_time g < round_delay g then Return g
         else Continue (g\<lparr>wait_after_score := False, serve := True,
                          countdown_played := False\<rparr>))
      else Continue g)"

definition paddle_collision :: "game_screen \<Rightarrow> game_screen" where
  "paddle_collision g =
     (if colliderect (ball g) (player g)
      then g\<lparr>ball_velocity := (fst (ball_velocity g) * - 1, snd (ball_velocity g)),
             sounds := sounds g @ [Paddle_sound]\<rparr>
      else if colliderect (ball g) (ai g)
      then g\<lparr>ball_velocity := (fst (ball_velocity g) * - 1, snd (ball_velocity g)),
             sounds := sounds g @ [Paddle_sound]\<rparr>
      else g)"

definition move_ball :: "game_screen \<Rightarrow> game_screen" where
  "move_ball g =
     g\<lparr>ball := (ball g)\<lparr>rect_x := rect_x (ball g) + fst (ball_velocity g),
                         rect_y := rect_y (ball g) + snd (ball_velocity g)\<rparr>\<rparr>"

definition check_scoring :: "frame_inputs \<Rightarrow> game_screen \<Rightarrow> game_screen" where
  "check_scoring e g =
     (if rect_right (ball g) < 0 then
        reset_ai (reset_player (reset_ball (choice1 e) (ticks_reset1 e)
          (g\<lparr>ai_score := ai_score g + 1, sounds := sounds g @ [Score_sound]\<rparr>)))
      else if rect_left (ball g) > fst (surface_size g) then
        reset_ai (reset_player (reset_ball (choice1 e) (ticks_reset1 e)
          (g\<lparr>player_score := player_score g + 1, sounds := sounds g @ [Score_sound]\<rparr>)))
      else g)"

definition wall_collision :: "game_screen \<Rightarrow> game_screen" where
  "wall_collision g =
     (if rect_bottom (ball g) \<ge> snd (surface_size g) \<or> rect_top (ball g) \<le> 0
      then g\<lparr>ball_velocity := (fst (ball_velocity g), snd (ball_velocity g) * - 1),
             sounds := sounds g @ [Paddle_sound]\<rparr>
      else g)"

definition paddle_movement :: "game_screen \<Rightarrow> game_screen" where
  "paddle_movement g =
     (let g1 = (if player_move_up g \<and> rect_top (player g) > 0
                then g\<lparr>player := (player g)\<lparr>rect_y := rect_y (player g) - player_speed g\<rparr>\<rparr>
                else g)
      in if player_move_down g1 \<and> rect_bottom (player g1) < snd (surface_size g1)
         then g1\<lparr>player := (player g1)\<lparr>rect_y := rect_y (player g1) + player_speed g1\<rparr>\<rparr>
         else g1)"

definition ai_paddle_movement :: "frame_inputs \<Rightarrow> game_screen \<Rightarrow> game_screen" where
  "ai_paddle_movement e g =
     (let g1 = g\<lparr>ai_delay := ai_delay g + 1\<rparr>;
          g2 = (if ai_delay g1 > 5 then g1\<lparr>ai_delay := 0\<rparr> else g1);
          dead_zone = 60
      in if rect_centery (ball g2) + ai_random e < rect_centery (ai g2) - dead_zone
            \<and> rect_top (ai g2) > 0
         then g2\<lparr>ai := (ai g2)\<lparr>rect_y := rect_y (ai g2) - ai_speed g2\<rparr>\<rparr>
         else if rect_y (ball g2) + ai_random e > rect_centery (ai g2) + dead_zone
            \<and> rect_bottom (ai g2) < snd (surface_size g2)
         then g2\<lparr>ai := (ai g2)\<lparr>rect_y := rect_y (ai g2) + ai_speed g2\<rparr>\<rparr>
         else g2)"

definition out_of_bounds :: "frame_inputs \<Rightarrow> game_screen \<Rightarrow> game_screen" where
  "out_of_bounds e g =
     (if rect_right (ball g) < 0 then
        reset_ball (choice2 e) (ticks_reset2 e) (g\<lparr>ai_score := ai_score g + 1\<rparr>)
      else if rect_left (ball g) > fst (surface_size g) then
        reset_ball (choice2 e) (ticks_reset2 e) (g\<lparr>player_score := player_score g + 1\<rparr>)
      else g)"

definition game_over_check :: "game_screen \<Rightarrow> game_screen" where
  "game_over_check g =
     (if player_score g \<ge> 3 \<or> ai_score g \<ge> 3 then g\<lparr>is_valid := False\<rparr> else g)"

text \<open>Everything after the two waiting steps: the frame of play.\<close>

definition play_frame :: "frame_inputs \<Rightarrow> game_screen \<Rightarrow> game_screen" where
  "play_frame e g =
     game_over_check (out_of_bounds e (ai_paddle_movement e (paddle_movement
       (wall_collision (check_scoring e (move_ball (paddle_collision g)))))))"

definition update_scene :: "frame_inputs \<Rightarrow> game_screen \<Rightarrow> error + game_screen" where
  "update_scene e g =
     (case countdown_step e g of
        Raise err \<Rightarrow> Inl err
      | Return g1 \<Rightarrow> Inr g1
      | Continue g1 \<Rightarrow>
          (case round_delay_step e g1 of
             Raise err \<Rightarrow> Inl err
           | Return g2 \<Rightarrow> Inr g2
           | Continue g2 \<Rightarrow> Inr (play_frame e g2)))"

subsection \<open>\<open>GameScreen.process_event\<close>\<close>

text \<open>The override does not call the base class.\<close>

fun process_event :: "event \<Rightarrow> game_screen \<Rightarrow> game_screen" where
  "process_event (KEYDOWN k) g =
     (let g1 = (if k = K_w \<or> k = K_UP then g\<lparr>player_move_up := True\<rparr> else g)
      in if k = K_s \<or> k = K_DOWN then g1\<lparr>player_move_down := True\<rparr> else g1)"
| "process_event (KEYUP k) g =
     (let g1 = (if k = K_w \<or> k = K_UP then g\<lparr>player_move_up := False\<rparr> else g)
      in if k = K_s \<or> k = K_DOWN then g1\<lparr>player_move_down := False\<rparr> else g1)"
| "process_event ev g = g"

subsection \<open>Runs of the scene\<close>

text \<open>
  The driver calls \<open>process_event\<close> and \<open>update_scene\<close> on the scene it made with
  \<open>GameScreen(screen, colour, size)\<close>. A state is reachable when such calls lead to it,
  in any number and order: the scene takes a call in every state, also after it has
  become invalid. The random jitter of every call is in its range; the clock readings
  are not constrained.
\<close>

datatype call = Update frame_inputs | Event event

fun call_ok :: "call \<Rightarrow> bool" where
  "call_ok (Update e) = inputs_ok e"
| "call_ok (Event ev) = True"

fun step :: "call \<Rightarrow> game_screen \<Rightarrow> error + game_screen" where
  "step (Update e) g = update_scene e g"
| "step (Event ev) g = Inr (process_event ev g)"

fun run :: "call list \<Rightarrow> game_screen \<Rightarrow> error + game_screen" where
  "run [] g = Inr g"
| "run (c # cs) g = (case step c g of Inl err \<Rightarrow> Inl err | Inr g1 \<Rightarrow> run cs g1)"

inductive reachable :: "int \<times> int \<Rightarrow> game_screen \<Rightarrow> bool" for sz :: "int \<times> int" where
  reachable_init: "reachable sz (GameScreen_init sz)"
| reachable_step: "reachable sz g \<Longrightarrow> call_ok c \<Longrightarrow> step c g = Inr g1 \<Longrightarrow> reachable sz g1"

section \<open>Notions used in the statements\<close>

text \<open>
  Both scoring tests of \<open>update_scene\<close> ask the same question of the ball: has its right
  edge passed below 0, or its left edge beyond the width of the surface. \<open>moved\<close> is the
  state they first see: after the paddle contact test and the move of the ball.
\<close>

definition scores_now :: "game_screen \<Rightarrow> bool" where
  "scores_now g = (rect_right (ball g) < 0 \<or> rect_left (ball g) > fst (surface_size g))"

definition moved :: "game_screen \<Rightarrow> game_screen" where
  "moved g = move_ball (paddle_collision g)"

text \<open>
  The three states of a match, read off the two flags in the order \<open>update_scene\<close>
  tests them.
\<close>

datatype phase = Serving | ScoredWaiting | Rallying

definition phase_of :: "game_screen \<Rightarrow> phase" where
  "phase_of g = (if serve g then Serving else if wait_after_score g then ScoredWaiting else Rallying)"

text \<open>
  A surface on which the paddles start inside the picture. The game runs on 750 by 750.
\<close>

definition surface_ok :: "int \<times> int \<Rightarrow> bool" where
  "surface_ok sz = (200 \<le> fst sz \<and> 200 \<le> snd sz)"

subsection \<open>Invariants of the reachable states\<close>

definition shapes_ok :: "int \<times> int \<Rightarrow> game_screen \<Rightarrow> bool" where
  "shapes_ok sz g =
     (surface_size g = sz \<and> round_delay g = 1000 \<and> player_speed g = 12 \<and> ai_speed g = 9
      \<and> rect_w (ball g) = 30 \<and> rect_h (ball g) = 30
      \<and> rect_w (player g) = 20 \<and> rect_h (player g) = 180
      \<and> rect_w (ai g) = 20 \<and> rect_h (ai g) = 180
      \<and> rect_x (player g) = 30 \<and> rect_x (ai g) = fst sz - 40)"

definition velocity_ok :: "game_screen \<Rightarrow> bool" where
  "velocity_ok g =
     ((fst (ball_velocity g) = 8 \<or> fst (ball_velocity g) = - 8)
      \<and> (snd (ball_velocity g) = 8 \<or> snd (ball_velocity g) = - 8))"

definition validity_ok :: "game_screen \<Rightarrow> bool" where
  "validity_ok g =
     (is_valid g = (player_score g < 3 \<and> ai_score g < 3)
      \<and> 0 \<le> player_score g \<and> 0 \<le> ai_score g)"

definition countdown_ok :: "game_screen \<Rightarrow> bool" where
  "countdown_ok g = (\<not> countdown_played g \<or> countdown_start_time g \<noteq> None)"

definition phase_ok :: "game_screen \<Rightarrow> bool" where
  "phase_ok g =
     (let c = fst (surface_size g) div 2 - 15 in
      (\<not> serve g \<or> (\<not> wait_after_score g \<and> c - 8 \<le> rect_x (ball g) \<and> rect_x (ball g) \<le> c + 8))
      \<and> (\<not> wait_after_score g \<or> rect_x (ball g) = c))"

definition ball_vertical_ok :: "game_screen \<Rightarrow> bool" where
  "ball_vertical_ok g =
     (let h = snd (surface_size g); y = rect_y (ball g); vy = snd (ball_velocity g) in
      ((0 < y \<and> y + 30 < h) \<or> (- 8 < y \<and> y \<le> 0 \<and> vy = 8)
         \<or> (h \<le> y + 30 \<and> y + 30 < h + 8 \<and> vy = - 8))
      \<and> (y - (h div 2 - 15)) mod 8 = 0)"

definition player_vertical_ok :: "game_screen \<Rightarrow> bool" where
  "player_vertical_ok g =
     (let h = snd (surface_size g); y = rect_y (player g) in
      - 12 < y \<and> y + 180 < h + 12 \<and> (y - (h div 2 - 80)) mod 12 = 0)"

definition ai_vertical_ok :: "game_screen \<Rightarrow> bool" where
  "ai_vertical_ok g =
     (let h = snd (surface_size g); y = rect_y (ai g) in
      - 9 < y \<and> y + 180 < h + 9 \<and> (y - (h div 2 - 80)) mod 9 = 0)"

definition vertical_ok :: "game_screen \<Rightarrow> bool" where
  "vertical_ok g = (ball_vertical_ok g \<and> player_vertical_ok g \<and> ai_vertical_ok g)"

definition basic_inv :: "int \<times> int \<Rightarrow> game_screen \<Rightarrow> bool" where
  "basic_inv sz g = (shapes_ok sz g \<and> velocity_ok g \<and> validity_ok g \<and> countdown_ok g)"

definition GameScreen_inv :: "int \<times> int \<Rightarrow> game_screen \<Rightarrow> bool" where
  "GameScreen_inv sz g = (basic_inv sz g \<and> phase_ok g \<and> vertical_ok g)"

section \<open>Concrete runs\<close>

text \<open>
  The game is played on a surface of 750 by 750. The runs below call \<open>update_scene\<close>
  once a second (the clock reads \<open>1000 * i\<close> at call \<open>i\<close>), with a countdown sound of
  one second, no jitter, and both coins of every reset showing \<open>-1\<close>.
\<close>

definition frame_at :: "int \<Rightarrow> frame_inputs" where
  "frame_at t =
     \<lparr>ticks_countdown_start = t, ticks_serve = t, ticks_wait = t, sound_length = 1000,
      ai_random = 0, ticks_reset1 = t, choice1 = (False, False),
      ticks_reset2 = t, choice2 = (False, False)\<rparr>"

definition frames_from :: "nat \<Rightarrow> nat \<Rightarrow> call list" where
  "frames_from a n = map (\<lambda>i. Update (frame_at (1000 * int i))) [a..<a + n]"

text \<open>The state after the first 45 calls: the ball has bounced off the AI paddle.\<close>

definition first_rally :: game_screen where
  "first_rally =
     \<lparr>is_valid = True, soundtrack = Sound ''assets/sounds/gameplay.mp3'', frame_rate = 60,
      surface_size = (750, 750),
      ball = \<lparr>rect_x = 664, rect_y = 712, rect_w = 30, rect_h = 30\<rparr>,
      ball_velocity = (- 8, 8),
      player = \<lparr>rect_x = 30, rect_y = 295, rect_w = 20, rect_h = 180\<rparr>,
      ai = \<lparr>rect_x = 710, rect_y = 565, rect_w = 20, rect_h = 180\<rparr>,
      player_move_up = False, player_move_down = False, player_speed = 12,
      ai_speed = 9, ai_delay = 2, player_score = 0, ai_score = 0,
      countdown_played = True, countdown_start_time = Some 0,
      serve = False, round_delay = 1000, wait_after_score = False,
      score_time = 0, sounds = [Countdown_sound, Paddle_sound]\<rparr>"

text \<open>
  The state after the first 231 calls: the AI has two points and the ball is about to
  leave the surface on the player's side.
\<close>

definition match_point :: game_screen where
  "match_point =
     \<lparr>is_valid = True, soundtrack = Sound ''assets/sounds/gameplay.mp3'', frame_rate = 60,
      surface_size = (750, 750),
      ball = \<lparr>rect_x = - 24, rect_y = 24, rect_w = 30, rect_h = 30\<rparr>,
      ball_velocity = (- 8, 8),
      player = \<lparr>rect_x = 30, rect_y = 295, rect_w = 20, rect_h = 180\<rparr>,
      ai = \<lparr>rect_x = 710, rect_y = - 2, rect_w = 20, rect_h = 180\<rparr>,
      player_move_up = False, player_move_down = False, player_speed = 12,
      ai_speed = 9, ai_delay = 0, player_score = 0, ai_score = 2,
      countdown_played = True, countdown_start_time = Some 183000,
      serve = False, round_delay = 1000, wait_after_score = False,
      score_time = 181000,
      sounds =
        [Countdown_sound, Paddle_sound, Paddle_sound, Score_sound,
         Countdown_sound, Paddle_sound, Score_sound, Countdown_sound,
         Paddle_sound]\<rparr>"

text \<open>
  Fifty calls later the match is over (the AI has three points, the scene is invalid),
  and the ball is again about to leave the surface on the player's side.
\<close>

definition after_match :: game_screen where
  "after_match =
     \<lparr>is_valid = False, soundtrack = Sound ''assets/sounds/gameplay.mp3'', frame_rate = 60,
      surface_size = (750, 750),
      ball = \<lparr>rect_x = - 24, rect_y = 24, rect_w = 30, rect_h = 30\<rparr>,
      ball_velocity = (- 8, 8),
      player = \<lparr>rect_x = 30, rect_y = 295, rect_w = 20, rect_h = 180\<rparr>,
      ai = \<lparr>rect_x = 710, rect_y = - 2, rect_w = 20, rect_h = 180\<rparr>,
      player_move_up = False, player_move_down = False, player_speed = 12,
      ai_speed = 9, ai_delay = 1, player_score = 0, ai_score = 3,
      countdown_played = True, countdown_start_time = Some 233000,
      serve = False, round_delay = 1000, wait_after_score = False,
      score_time = 231000,
      sounds =
        [Countdown_sound, Paddle_sound, Paddle_sound, Score_sound,
         Countdown_sound, Paddle_sound, Score_sound, Countdown_sound,
         Paddle_sound, Score_sound, Countdown_sound, Paddle_sound]\<rparr>"

text \<open>
  The state after the W key went down and 26 calls followed: the player paddle has
  gone up 25 times.
\<close>

definition paddle_past_top :: game_screen where
  "paddle_past_top =
     \<lparr>is_valid = True, soundtrack = Sound ''assets/sounds/gameplay.mp3'', frame_rate = 60,
      surface_size = (750, 750),
      ball = \<lparr>rect_x = 560, rect_y = 560, rect_w = 30, rect_h = 30\<rparr>,
      ball_velocity = (8, 8),
      player = \<lparr>rect_x = 30, rect_y = - 5, rect_w = 20, rect_h = 180\<rparr>,
      ai = \<lparr>rect_x = 710, rect_y = 412, rect_w = 20, rect_h = 180\<rparr>,
      player_move_up = True, player_move_down = False, player_speed = 12,
      ai_speed = 9, ai_delay = 1, player_score = 0, ai_score = 0,
      countdown_played = True, countdown_start_time = Some 0,
      serve = False, round_delay = 1000, wait_after_score = False,
      score_time = 0, sounds = [Countdown_sound]\<rparr>"

text \<open>The state after the first 9 calls: the ball is on its way down to the right.\<close>

definition ball_below_ai :: game_screen where
  "ball_below_ai =
     \<lparr>is_valid = True, soundtrack = Sound ''assets/sounds/gameplay.mp3'', frame_rate = 60,
      surface_size = (750, 750),
      ball = \<lparr>rect_x = 424, rect_y = 424, rect_w = 30, rect_h = 30\<rparr>,
      ball_velocity = (8, 8),
      player = \<lparr>rect_x = 30, rect_y = 295, rect_w = 20, rect_h = 180\<rparr>,
      ai = \<lparr>rect_x = 710, rect_y = 295, rect_w = 20, rect_h = 180\<rparr>,
      player_move_up = False, player_move_down = False, player_speed = 12,
      ai_speed = 9, ai_delay = 2, player_score = 0, ai_score = 0,
      countdown_played = True, countdown_start_time = Some 0,
      serve = False, round_delay = 1000, wait_after_score = False,
      score_time = 0, sounds = [Countdown_sound]\<rparr>"

text \<open>
  On a surface only 60 wide the two paddles stand so close that the ball at the centre
  overlaps both. The scene is taken in the middle of a rally.
\<close>

definition between_paddles :: game_screen where
  "between_paddles = (GameScreen_init (60, 750))\<lparr>serve := False\<rparr>"



text \<open>The state after the first call: the countdown has started.\<close>

definition countdown_running :: game_screen where
  "countdown_running =
     \<lparr>is_valid = True, soundtrack = Sound ''assets/sounds/gameplay.mp3'', frame_rate = 60,
      surface_size = (750, 750),
      ball = \<lparr>rect_x = 360, rect_y = 360, rect_w = 30, rect_h = 30\<rparr>,
      ball_velocity = (8, 8),
      player = \<lparr>rect_x = 30, rect_y = 295, rect_w = 20, rect_h = 180\<rparr>,
      ai = \<lparr>rect_x = 710, rect_y = 295, rect_w = 20, rect_h = 180\<rparr>,
      player_move_up = False, player_move_down = False, player_speed = 12,
      ai_speed = 9, ai_delay = 0, player_score = 0, ai_score = 0,
      countdown_played = True, countdown_start_time = Some 0,
      serve = True, round_delay = 1000, wait_after_score = False,
      score_time = 0,
      sounds =
        [Countdown_sound]\<rparr>"

text \<open>
  The state after the first 10 calls, one call after \<open>ball_below_ai\<close>: the AI paddle is
  where it was.
\<close>

definition ai_stays :: game_screen where
  "ai_stays =
     \<lparr>is_valid = True, soundtrack = Sound ''assets/sounds/gameplay.mp3'', frame_rate = 60,
      surface_size = (750, 750),
      ball = \<lparr>rect_x = 432, rect_y = 432, rect_w = 30, rect_h = 30\<rparr>,
      ball_velocity = (8, 8),
      player = \<lparr>rect_x = 30, rect_y = 295, rect_w = 20, rect_h = 180\<rparr>,
      ai = \<lparr>rect_x = 710, rect_y = 295, rect_w = 20, rect_h = 180\<rparr>,
      player_move_up = False, player_move_down = False, player_speed = 12,
      ai_speed = 9, ai_delay = 3, player_score = 0, ai_score = 0,
      countdown_played = True, countdown_start_time = Some 0,
      serve = False, round_delay = 1000, wait_after_score = False,
      score_time = 0,
      sounds =
        [Countdown_sound]\<rparr>"

text \<open>
  The state after the first 182 calls: the AI has just made its second point, at clock
  181000, and the scene waits.
\<close>

definition waiting_after_point :: game_screen where
  "waiting_after_point =
     \<lparr>is_valid = True, soundtrack = Sound ''assets/sounds/gameplay.mp3'', frame_rate = 60,
      surface_size = (750, 750),
      ball = \<lparr>rect_x = 360, rect_y = 360, rect_w = 30, rect_h = 30\<rparr>,
      ball_velocity = (- 8, - 8),
      player = \<lparr>rect_x = 30, rect_y = 295, rect_w = 20, rect_h = 180\<rparr>,
      ai = \<lparr>rect_x = 710, rect_y = 295, rect_w = 20, rect_h = 180\<rparr>,
      player_move_up = False, player_move_down = False, player_speed = 12,
      ai_speed = 9, ai_delay = 0, player_score = 0, ai_score = 2,
      countdown_played = True, countdown_start_time = Some 133000,
      serve = False, round_delay = 1000, wait_after_score = True,
      score_time = 181000,
      sounds =
        [Countdown_sound, Paddle_sound, Paddle_sound, Score_sound,
         Countdown_sound, Paddle_sound, Score_sound]\<rparr>"

text \<open>
  The state after the W key went down and 25 calls followed, one call before
  \<open>paddle_past_top\<close>.
\<close>

definition paddle_near_top :: game_screen where
  "paddle_near_top =
     \<lparr>is_valid = True, soundtrack = Sound ''assets/sounds/gameplay.mp3'', frame_rate = 60,
      surface_size = (750, 750),
      ball = \<lparr>rect_x = 552, rect_y = 552, rect_w = 30, rect_h = 30\<rparr>,
      ball_velocity = (8, 8),
      player = \<lparr>rect_x = 30, rect_y = 7, rect_w = 20, rect_h = 180\<rparr>,
      ai = \<lparr>rect_x = 710, rect_y = 403, rect_w = 20, rect_h = 180\<rparr>,
      player_move_up = True, player_move_down = False, player_speed = 12,
      ai_speed = 9, ai_delay = 0, player_score = 0, ai_score = 0,
      countdown_played = True, countdown_start_time = Some 0,
      serve = False, round_delay = 1000, wait_after_score = False,
      score_time = 0,
      sounds =
        [Countdown_sound]\<rparr>"

text \<open>The state one call after \<open>after_match\<close>: a fourth point for the AI.\<close>

definition fourth_point :: game_screen where
  "fourth_point =
     \<lparr>is_valid = False, soundtrack = Sound ''assets/sounds/gameplay.mp3'', frame_rate = 60,
      surface_size = (750, 750),
      ball = \<lparr>rect_x = 360, rect_y = 360, rect_w = 30, rect_h = 30\<rparr>,
      ball_velocity = (- 8, - 8),
      player = \<lparr>rect_x = 30, rect_y = 295, rect_w = 20, rect_h = 180\<rparr>,
      ai = \<lparr>rect_x = 710, rect_y = 295, rect_w = 20, rect_h = 180\<rparr>,
      player_move_up = False, player_move_down = False, player_speed = 12,
      ai_speed = 9, ai_delay = 2, player_score = 0, ai_score = 4,
      countdown_played = True, countdown_start_time = Some 233000,
      serve = False, round_delay = 1000, wait_after_score = True,
      score_time = 281000,
      sounds =
        [Countdown_sound, Paddle_sound, Paddle_sound, Score_sound,
         Countdown_sound, Paddle_sound, Score_sound, Countdown_sound,
         Paddle_sound, Score_sound, Countdown_sound, Paddle_sound,
         Score_sound]\<rparr>"

text \<open>
  The state one call after \<open>countdown_running\<close>, at clock 1000: the countdown is over
  and the first frame of the rally has been played.
\<close>

definition first_frame :: game_screen where
  "first_frame =
     \<lparr>is_valid = True, soundtrack = Sound ''assets/sounds/gameplay.mp3'', frame_rate = 60,
      surface_size = (750, 750),
      ball = \<lparr>rect_x = 368, rect_y = 368, rect_w = 30, rect_h = 30\<rparr>,
      ball_velocity = (8, 8),
      player = \<lparr>rect_x = 30, rect_y = 295, rect_w = 20, rect_h = 180\<rparr>,
      ai = \<lparr>rect_x = 710, rect_y = 295, rect_w = 20, rect_h = 180\<rparr>,
      player_move_up = False, player_move_down = False, player_speed = 12,
      ai_speed = 9, ai_delay = 1, player_score = 0, ai_score = 0,
      countdown_played = True, countdown_start_time = Some 0,
      serve = False, round_delay = 1000, wait_after_score = False,
      score_time = 0, sounds = [Countdown_sound]\<rparr>"

text \<open>
  The state one call after \<open>waiting_after_point\<close>, at clock 182000: the wait is over, the
  scene serves, and the ball has left the centre.
\<close>

definition serving_again :: game_screen where
  "serving_again =
     \<lparr>is_valid = True, soundtrack = Sound ''assets/sounds/gameplay.mp3'', frame_rate = 60,
      surface_size = (750, 750),
      ball = \<lparr>rect_x = 352, rect_y = 352, rect_w = 30, rect_h = 30\<rparr>,
      ball_velocity = (- 8, - 8),
      player = \<lparr>rect_x = 30, rect_y = 295, rect_w = 20, rect_h = 180\<rparr>,
      ai = \<lparr>rect_x = 710, rect_y = 295, rect_w = 20, rect_h = 180\<rparr>,
      player_move_up = False, player_move_down = False, player_speed = 12,
      ai_speed = 9, ai_delay = 1, player_score = 0, ai_score = 2,
      countdown_played = False, countdown_start_time = Some 133000,
      serve = True, round_delay = 1000, wait_after_score = False,
      score_time = 181000,
      sounds =
        [Countdown_sound, Paddle_sound, Paddle_sound, Score_sound,
         Countdown_sound, Paddle_sound, Score_sound]\<rparr>"

section \<open>How each step of \<open>update_scene\<close> changes the fields\<close>

lemmas rect_defs = rect_left_def rect_right_def rect_top_def rect_bottom_def rect_centery_def

lemma paddle_collision_fields:
  "is_valid (paddle_collision g) = is_valid g"
  "surface_size (paddle_collision g) = surface_size g"
  "ball (paddle_collision g) = ball g"
  "player (paddle_collision g) = player g"
  "ai (paddle_collision g) = ai g"
  "player_move_up (paddle_collision g) = player_move_up g"
  "player_move_down (paddle_collision g) = player_move_down g"
  "player_speed (paddle_collision g) = player_speed g"
  "ai_speed (paddle_collision g) = ai_speed g"
  "ai_delay (paddle_collision g) = ai_delay g"
  "player_score (paddle_collision g) = player_score g"
  "ai_score (paddle_collision g) = ai_score g"
  "countdown_played (paddle_collision g) = countdown_played g"
  "countdown_start_time (paddle_collision g) = countdown_start_time g"
  "serve (paddle_collision g) = serve g"
  "round_delay (paddle_collision g) = round_delay g"
  "wait_after_score (paddle_collision g) = wait_after_score g"
  "score_time (paddle_collision g) = score_time g"
  "snd (ball_velocity (paddle_collision g)) = snd (ball_velocity g)"
  by (simp_all add: paddle_collision_def)

lemma paddle_collision_velocity:
  "fst (ball_velocity (paddle_collision g)) =
     (if colliderect (ball g) (player g) \<or> colliderect (ball g) (ai g)
      then - fst (ball_velocity g) else fst (ball_velocity g))"
  by (simp add: paddle_collision_def)

lemma move_ball_fields:
  "is_valid (move_ball g) = is_valid g"
  "surface_size (move_ball g) = surface_size g"
  "ball_velocity (move_ball g) = ball_velocity g"
  "player (move_ball g) = player g"
  "ai (move_ball g) = ai g"
  "player_move_up (move_ball g) = player_move_up g"
  "player_move_down (move_ball g) = player_move_down g"
  "player_speed (move_ball g) = player_speed g"
  "ai_speed (move_ball g) = ai_speed g"
  "ai_delay (move_ball g) = ai_delay g"
  "player_score (move_ball g) = player_score g"
  "ai_score (move_ball g) = ai_score g"
  "countdown_played (move_ball g) = countdown_played g"
  "countdown_start_time (move_ball g) = countdown_start_time g"
  "serve (move_ball g) = serve g"
  "round_delay (move_ball g) = round_delay g"
  "wait_after_score (move_ball g) = wait_after_score g"
  "score_time (move_ball g) = score_time g"
  "sounds (move_ball g) = sounds g"
  "rect_x (ball (move_ball g)) = rect_x (ball g) + fst (ball_velocity g)"
  "rect_y (ball (move_ball g)) = rect_y (ball g) + snd (ball_velocity g)"
  "rect_w (ball (move_ball g)) = rect_w (ball g)"
  "rect_h (ball (move_ball g)) = rect_h (ball g)"
  by (simp_all add: move_ball_def)


lemma check_scoring_fields:
  "is_valid (check_scoring e g) = is_valid g"
  "surface_size (check_scoring e g) = surface_size g"
  "player_move_up (check_scoring e g) = player_move_up g"
  "player_move_down (check_scoring e g) = player_move_down g"
  "player_speed (check_scoring e g) = player_speed g"
  "ai_speed (check_scoring e g) = ai_speed g"
  "ai_delay (check_scoring e g) = ai_delay g"
  "countdown_played (check_scoring e g) = countdown_played g"
  "countdown_start_time (check_scoring e g) = countdown_start_time g"
  "serve (check_scoring e g) = serve g"
  "round_delay (check_scoring e g) = round_delay g"
  "rect_w (ball (check_scoring e g)) = rect_w (ball g)"
  "rect_h (ball (check_scoring e g)) = rect_h (ball g)"
  "rect_w (player (check_scoring e g)) = rect_w (player g)"
  "rect_h (player (check_scoring e g)) = rect_h (player g)"
  "rect_w (ai (check_scoring e g)) = rect_w (ai g)"
  "rect_h (ai (check_scoring e g)) = rect_h (ai g)"
  by (simp_all add: check_scoring_def reset_ball_def reset_player_def reset_ai_def)

lemma check_scoring_idle:
  "\<not> scores_now g \<Longrightarrow> check_scoring e g = g"
  by (simp add: check_scoring_def scores_now_def)

lemma check_scoring_scored:
  assumes "scores_now g"
  shows "rect_x (ball (check_scoring e g)) = fst (surface_size g) div 2 - 15"
    and "rect_y (ball (check_scoring e g)) = snd (surface_size g) div 2 - 15"
    and "ball_velocity (check_scoring e g) =
           (8 * random_choice (fst (choice1 e)), 8 * random_choice (snd (choice1 e)))"
    and "wait_after_score (check_scoring e g)"
    and "score_time (check_scoring e g) = ticks_reset1 e"
    and "rect_x (player (check_scoring e g)) = 30"
    and "rect_y (player (check_scoring e g)) = snd (surface_size g) div 2 - 80"
    and "rect_x (ai (check_scoring e g)) = fst (surface_size g) - 40"
    and "rect_y (ai (check_scoring e g)) = snd (surface_size g) div 2 - 80"
    and "sounds (check_scoring e g) = sounds g @ [Score_sound]"
    and "ai_score (check_scoring e g) = ai_score g + (if rect_right (ball g) < 0 then 1 else 0)"
    and "player_score (check_scoring e g) =
           player_score g + (if rect_right (ball g) < 0 then 0 else 1)"
  using assms
  by (auto simp: check_scoring_def scores_now_def reset_ball_def reset_player_def reset_ai_def)

lemma wall_collision_fields:
  "is_valid (wall_collision g) = is_valid g"
  "surface_size (wall_collision g) = surface_size g"
  "ball (wall_collision g) = ball g"
  "player (wall_collision g) = player g"
  "ai (wall_collision g) = ai g"
  "player_move_up (wall_collision g) = player_move_up g"
  "player_move_down (wall_collision g) = player_move_down g"
  "player_speed (wall_collision g) = player_speed g"
  "ai_speed (wall_collision g) = ai_speed g"
  "ai_delay (wall_collision g) = ai_delay g"
  "player_score (wall_collision g) = player_score g"
  "ai_score (wall_collision g) = ai_score g"
  "countdown_played (wall_collision g) = countdown_played g"
  "countdown_start_time (wall_collision g) = countdown_start_time g"
  "serve (wall_collision g) = serve g"
  "round_delay (wall_collision g) = round_delay g"
  "wait_after_score (wall_collision g) = wait_after_score g"
  "score_time (wall_collision g) = score_time g"
  "fst (ball_velocity (wall_collision g)) = fst (ball_velocity g)"
  by (simp_all add: wall_collision_def)

lemma wall_collision_velocity:
  "snd (ball_velocity (wall_collision g)) =
     (if rect_bottom (ball g) \<ge> snd (surface_size g) \<or> rect_top (ball g) \<le> 0
      then - snd (ball_velocity g) else snd (ball_velocity g))"
  by (simp add: wall_collision_def)

lemma paddle_movement_fields:
  "is_valid (paddle_movement g) = is_valid g"
  "surface_size (paddle_movement g) = surface_size g"
  "ball (paddle_movement g) = ball g"
  "ball_velocity (paddle_movement g) = ball_velocity g"
  "ai (paddle_movement g) = ai g"
  "player_move_up (paddle_movement g) = player_move_up g"
  "player_move_down (paddle_movement g) = player_move_down g"
  "player_speed (paddle_movement g) = player_speed g"
  "ai_speed (paddle_movement g) = ai_speed g"
  "ai_delay (paddle_movement g) = ai_delay g"
  "player_score (paddle_movement g) = player_score g"
  "ai_score (paddle_movement g) = ai_score g"
  "countdown_played (paddle_movement g) = countdown_played g"
  "countdown_start_time (paddle_movement g) = countdown_start_time g"
  "serve (paddle_movement g) = serve g"
  "round_delay (paddle_movement g) = round_delay g"
  "wait_after_score (paddle_movement g) = wait_after_score g"
  "score_time (paddle_movement g) = score_time g"
  "sounds (paddle_movement g) = sounds g"
  "rect_x (player (paddle_movement g)) = rect_x (player g)"
  "rect_w (player (paddle_movement g)) = rect_w (player g)"
  "rect_h (player (paddle_movement g)) = rect_h (player g)"
  by (simp_all add: paddle_movement_def Let_def)

lemma ai_paddle_movement_fields:
  "is_valid (ai_paddle_movement e g) = is_valid g"
  "surface_size (ai_paddle_movement e g) = surface_size g"
  "ball (ai_paddle_movement e g) = ball g"
  "ball_velocity (ai_paddle_movement e g) = ball_velocity g"
  "player (ai_paddle_movement e g) = player g"
  "player_move_up (ai_paddle_movement e g) = player_move_up g"
  "player_move_down (ai_paddle_movement e g) = player_move_down g"
  "player_speed (ai_paddle_movement e g) = player_speed g"
  "ai_speed (ai_paddle_movement e g) = ai_speed g"
  "player_score (ai_paddle_movement e g) = player_score g"
  "ai_score (ai_paddle_movement e g) = ai_score g"
  "countdown_played (ai_paddle_movement e g) = countdown_played g"
  "countdown_start_time (ai_paddle_movement e g) = countdown_start_time g"
  "serve (ai_paddle_movement e g) = serve g"
  "round_delay (ai_paddle_movement e g) = round_delay g"
  "wait_after_score (ai_paddle_movement e g) = wait_after_score g"
  "score_time (ai_paddle_movement e g) = score_time g"
  "sounds (ai_paddle_movement e g) = sounds g"
  "rect_x (ai (ai_paddle_movement e g)) = rect_x (ai g)"
  "rect_w (ai (ai_paddle_movement e g)) = rect_w (ai g)"
  "rect_h (ai (ai_paddle_movement e g)) = rect_h (ai g)"
  by (simp_all add: ai_paddle_movement_def Let_def)

lemma out_of_bounds_fields:
  "is_valid (out_of_bounds e g) = is_valid g"
  "surface_size (out_of_bounds e g) = surface_size g"
  "player (out_of_bounds e g) = player g"
  "ai (out_of_bounds e g) = ai g"
  "player_move_up (out_of_bounds e g) = player_move_up g"
  "player_move_down (out_of_bounds e g) = player_move_down g"
  "player_speed (out_of_bounds e g) = player_speed g"
  "ai_speed (out_of_bounds e g) = ai_speed g"
  "ai_delay (out_of_bounds e g) = ai_delay g"
  "countdown_played (out_of_bounds e g) = countdown_played g"
  "countdown_start_time (out_of_bounds e g) = countdown_start_time g"
  "serve (out_of_bounds e g) = serve g"
  "round_delay (out_of_bounds e g) = round_delay g"
  "sounds (out_of_bounds e g) = sounds g"
  "rect_w (ball (out_of_bounds e g)) = rect_w (ball g)"
  "rect_h (ball (out_of_bounds e g)) = rect_h (ball g)"
  by (simp_all add: out_of_bounds_def reset_ball_def)

lemma out_of_bounds_idle:
  "\<not> scores_now g \<Longrightarrow> out_of_bounds e g = g"
  by (simp add: out_of_bounds_def scores_now_def)

lemma game_over_check_fields:
  "surface_size (game_over_check g) = surface_size g"
  "ball (game_over_check g) = ball g"
  "ball_velocity (game_over_check g) = ball_velocity g"
  "player (game_over_check g) = player g"
  "ai (game_over_check g) = ai g"
  "player_move_up (game_over_check g) = player_move_up g"
  "player_move_down (game_over_check g) = player_move_down g"
  "player_speed (game_over_check g) = player_speed g"
  "ai_speed (game_over_check g) = ai_speed g"
  "ai_delay (game_over_check g) = ai_delay g"
  "player_score (game_over_check g) = player_score g"
  "ai_score (game_over_check g) = ai_score g"
  "countdown_played (game_over_check g) = countdown_played g"
  "countdown_start_time (game_over_check g) = countdown_start_time g"
  "serve (game_over_check g) = serve g"
  "round_delay (game_over_check g) = round_delay g"
  "wait_after_score (game_over_check g) = wait_after_score g"
  "score_time (game_over_check g) = score_time g"
  "sounds (game_over_check g) = sounds g"
  "is_valid (game_over_check g) = (is_valid g \<and> player_score g < 3 \<and> ai_score g < 3)"
  by (auto simp: game_over_check_def)

lemmas frame_fields = paddle_collision_fields move_ball_fields check_scoring_fields
  wall_collision_fields paddle_movement_fields ai_paddle_movement_fields out_of_bounds_fields
  game_over_check_fields


lemma scores_now_later:
  "scores_now (ai_paddle_movement e (paddle_movement (wall_collision g))) = scores_now g"
  by (simp add: scores_now_def frame_fields)

lemma scores_now_check_scoring:
  assumes "0 \<le> fst (surface_size g)" "rect_w (ball g) = 30"
  shows "\<not> scores_now (check_scoring e g)"
proof (cases "scores_now g")
  case True
  from check_scoring_scored(1)[OF True, of e] assms show ?thesis
    by (simp add: scores_now_def rect_defs frame_fields) arith
next
  case False
  then show ?thesis by (simp add: check_scoring_idle)
qed

lemma play_frame_eq:
  assumes "0 \<le> fst (surface_size g)" "rect_w (ball g) = 30"
  shows "play_frame e g =
    game_over_check (ai_paddle_movement e (paddle_movement (wall_collision (check_scoring e (moved g)))))"
proof -
  have "\<not> scores_now (check_scoring e (moved g))"
    using assms by (intro scores_now_check_scoring) (simp_all add: moved_def frame_fields)
  then have "\<not> scores_now (ai_paddle_movement e (paddle_movement (wall_collision (check_scoring e (moved g)))))"
    by (simp add: scores_now_later)
  then show ?thesis
    by (simp add: play_frame_def moved_def out_of_bounds_idle)
qed

subsection \<open>The two waiting steps\<close>

lemma countdown_step_fields:
  assumes "countdown_step e g = Return g1 \<or> countdown_step e g = Continue g1"
  shows "is_valid g1 = is_valid g" "surface_size g1 = surface_size g" "ball g1 = ball g"
    "ball_velocity g1 = ball_velocity g" "player g1 = player g" "ai g1 = ai g"
    "player_move_up g1 = player_move_up g" "player_move_down g1 = player_move_down g"
    "player_speed g1 = player_speed g" "ai_speed g1 = ai_speed g" "ai_delay g1 = ai_delay g"
    "player_score g1 = player_score g" "ai_score g1 = ai_score g"
    "round_delay g1 = round_delay g" "wait_after_score g1 = wait_after_score g"
    "score_time g1 = score_time g"
  using assms
  by (auto simp: countdown_step_def Let_def split: if_splits option.splits)

lemma countdown_step_Return:
  assumes "countdown_step e g = Return g1"
  shows "serve g" "serve g1" "countdown_played g1" "countdown_start_time g1 \<noteq> None"
    "sounds g1 = sounds g @ (if countdown_played g then [] else [Countdown_sound])"
  using assms
  by (auto simp: countdown_step_def Let_def split: if_splits option.splits)

lemma countdown_step_Continue:
  assumes "countdown_step e g = Continue g1"
  shows "\<not> serve g1"
    "countdown_ok g \<Longrightarrow> countdown_ok g1"
    "sounds g1 = sounds g @ (if serve g \<and> \<not> countdown_played g then [Countdown_sound] else [])"
  using assms
  by (auto simp: countdown_step_def countdown_ok_def Let_def split: if_splits option.splits)

lemma countdown_step_total:
  "countdown_ok g \<Longrightarrow> countdown_step e g \<noteq> Raise err"
  by (auto simp: countdown_step_def countdown_ok_def Let_def split: if_splits option.splits)

lemma round_delay_step_Return:
  "round_delay_step e g = Return g1 \<Longrightarrow> g1 = g \<and> wait_after_score g"
  by (auto simp: round_delay_step_def split: if_splits)

lemma round_delay_step_Continue:
  assumes "round_delay_step e g = Continue g1"
  shows "is_valid g1 = is_valid g" "surface_size g1 = surface_size g" "ball g1 = ball g"
    "ball_velocity g1 = ball_velocity g" "player g1 = player g" "ai g1 = ai g"
    "player_move_up g1 = player_move_up g" "player_move_down g1 = player_move_down g"
    "player_speed g1 = player_speed g" "ai_speed g1 = ai_speed g" "ai_delay g1 = ai_delay g"
    "player_score g1 = player_score g" "ai_score g1 = ai_score g"
    "round_delay g1 = round_delay g" "score_time g1 = score_time g" "sounds g1 = sounds g"
    "\<not> wait_after_score g1"
    "serve g1 = (serve g \<or> wait_after_score g)"
    "countdown_ok g \<Longrightarrow> countdown_ok g1"
  using assms
  by (auto simp: round_delay_step_def countdown_ok_def split: if_splits)

lemma round_delay_step_total: "round_delay_step e g \<noteq> Raise err"
  by (simp add: round_delay_step_def)

lemma update_scene_cases:
  assumes "update_scene e g = Inr g'"
  obtains (served) "countdown_step e g = Return g'"
  | (waited) g1 where "countdown_step e g = Continue g1" "round_delay_step e g1 = Return g'"
  | (played) g1 g2 where "countdown_step e g = Continue g1" "round_delay_step e g1 = Continue g2"
      "g' = play_frame e g2"
  using assms by (auto simp: update_scene_def split: flow.splits)

lemma update_scene_total:
  assumes "countdown_ok g"
  shows "\<exists>g'. update_scene e g = Inr g'"
  using countdown_step_total[OF assms, of e] round_delay_step_total
  by (auto simp: update_scene_def split: flow.splits)

subsection \<open>The invariants that hold on every surface\<close>

lemma check_scoring_paddle_x:
  "rect_x (player (check_scoring e g)) = (if scores_now g then 30 else rect_x (player g))"
  "rect_x (ai (check_scoring e g)) =
     (if scores_now g then fst (surface_size g) - 40 else rect_x (ai g))"
  by (auto simp: check_scoring_def scores_now_def reset_ball_def reset_player_def reset_ai_def)

lemma shapes_ok_play_frame: "shapes_ok sz g \<Longrightarrow> shapes_ok sz (play_frame e g)"
  by (simp add: shapes_ok_def play_frame_def frame_fields check_scoring_paddle_x)

lemma velocity_ok_steps:
  "velocity_ok g \<Longrightarrow> velocity_ok (paddle_collision g)"
  "velocity_ok g \<Longrightarrow> velocity_ok (move_ball g)"
  "velocity_ok g \<Longrightarrow> velocity_ok (check_scoring e g)"
  "velocity_ok g \<Longrightarrow> velocity_ok (wall_collision g)"
  "velocity_ok g \<Longrightarrow> velocity_ok (paddle_movement g)"
  "velocity_ok g \<Longrightarrow> velocity_ok (ai_paddle_movement e g)"
  "velocity_ok g \<Longrightarrow> velocity_ok (out_of_bounds e g)"
  "velocity_ok g \<Longrightarrow> velocity_ok (game_over_check g)"
  by (auto simp: velocity_ok_def paddle_collision_def move_ball_def check_scoring_def
      wall_collision_def paddle_movement_fields ai_paddle_movement_fields out_of_bounds_def
      game_over_check_fields reset_ball_def reset_player_def reset_ai_def random_choice_def)

lemma velocity_ok_play_frame: "velocity_ok g \<Longrightarrow> velocity_ok (play_frame e g)"
  by (simp add: play_frame_def velocity_ok_steps)

lemma score_steps:
  "player_score g \<le> player_score (check_scoring e g)"
  "ai_score g \<le> ai_score (check_scoring e g)"
  "player_score g \<le> player_score (out_of_bounds e g)"
  "ai_score g \<le> ai_score (out_of_bounds e g)"
  by (auto simp: check_scoring_def out_of_bounds_def reset_ball_def reset_player_def reset_ai_def)

lemma play_frame_scores_mono:
  "player_score g \<le> player_score (play_frame e g)"
  "ai_score g \<le> ai_score (play_frame e g)"
proof -
  let ?m = "moved g"
  let ?c = "ai_paddle_movement e (paddle_movement (wall_collision (check_scoring e ?m)))"
  have "player_score g = player_score ?m" "ai_score g = ai_score ?m"
    by (simp_all add: moved_def frame_fields)
  moreover have "player_score ?m \<le> player_score ?c" "ai_score ?m \<le> ai_score ?c"
    by (simp_all add: frame_fields score_steps)
  moreover have "player_score ?c \<le> player_score (play_frame e g)"
    "ai_score ?c \<le> ai_score (play_frame e g)"
    by (simp_all add: play_frame_def moved_def game_over_check_fields score_steps)
  ultimately show "player_score g \<le> player_score (play_frame e g)"
    "ai_score g \<le> ai_score (play_frame e g)"
    by linarith+
qed

lemma play_frame_is_valid:
  "is_valid (play_frame e g) =
     (is_valid g \<and> player_score (play_frame e g) < 3 \<and> ai_score (play_frame e g) < 3)"
  by (simp add: play_frame_def frame_fields)

lemma validity_ok_play_frame:
  assumes "validity_ok g"
  shows "validity_ok (play_frame e g)"
  using assms play_frame_scores_mono[of g e]
  by (auto simp: validity_ok_def play_frame_is_valid)

lemma play_frame_flags:
  "serve (play_frame e g) = serve g"
  "countdown_played (play_frame e g) = countdown_played g"
  "countdown_start_time (play_frame e g) = countdown_start_time g"
  "player_move_up (play_frame e g) = player_move_up g"
  "player_move_down (play_frame e g) = player_move_down g"
  "surface_size (play_frame e g) = surface_size g"
  by (simp_all add: play_frame_def frame_fields)

lemma countdown_ok_play_frame: "countdown_ok g \<Longrightarrow> countdown_ok (play_frame e g)"
  by (simp add: countdown_ok_def play_frame_flags)


lemma basic_inv_init: "basic_inv sz (GameScreen_init sz)"
  by (simp add: basic_inv_def shapes_ok_def velocity_ok_def validity_ok_def countdown_ok_def
      GameScreen_init_def Rect_def)

lemma process_event_fields:
  "is_valid (process_event ev g) = is_valid g"
  "surface_size (process_event ev g) = surface_size g"
  "ball (process_event ev g) = ball g"
  "ball_velocity (process_event ev g) = ball_velocity g"
  "player (process_event ev g) = player g"
  "ai (process_event ev g) = ai g"
  "player_speed (process_event ev g) = player_speed g"
  "ai_speed (process_event ev g) = ai_speed g"
  "ai_delay (process_event ev g) = ai_delay g"
  "player_score (process_event ev g) = player_score g"
  "ai_score (process_event ev g) = ai_score g"
  "countdown_played (process_event ev g) = countdown_played g"
  "countdown_start_time (process_event ev g) = countdown_start_time g"
  "serve (process_event ev g) = serve g"
  "round_delay (process_event ev g) = round_delay g"
  "wait_after_score (process_event ev g) = wait_after_score g"
  "score_time (process_event ev g) = score_time g"
  "sounds (process_event ev g) = sounds g"
  by (cases ev; simp add: Let_def)+

lemma basic_inv_process_event: "basic_inv sz g \<Longrightarrow> basic_inv sz (process_event ev g)"
  by (simp add: basic_inv_def shapes_ok_def velocity_ok_def validity_ok_def countdown_ok_def
      process_event_fields)

lemma basic_inv_waiting:
  assumes "basic_inv sz g" "countdown_step e g = Return g1 \<or> countdown_step e g = Continue g1"
  shows "basic_inv sz g1"
proof -
  have "countdown_ok g1"
    using assms countdown_step_Return(3,4)[of e g g1] countdown_step_Continue(2)[of e g g1]
    by (auto simp: basic_inv_def countdown_ok_def)
  then show ?thesis
    using assms(1) countdown_step_fields[OF assms(2)]
    by (simp add: basic_inv_def shapes_ok_def velocity_ok_def validity_ok_def)
qed

lemma basic_inv_round_delay:
  assumes "basic_inv sz g" "round_delay_step e g = Continue g1"
  shows "basic_inv sz g1"
  using assms(1) round_delay_step_Continue[OF assms(2)]
  by (simp add: basic_inv_def shapes_ok_def velocity_ok_def validity_ok_def)

lemma basic_inv_play_frame: "basic_inv sz g \<Longrightarrow> basic_inv sz (play_frame e g)"
  by (simp add: basic_inv_def shapes_ok_play_frame velocity_ok_play_frame
      validity_ok_play_frame countdown_ok_play_frame)

lemma basic_inv_update_scene:
  assumes "basic_inv sz g" "update_scene e g = Inr g'"
  shows "basic_inv sz g'"
  using assms(2)
proof (cases rule: update_scene_cases)
  case served
  then show ?thesis using assms(1) basic_inv_waiting by blast
next
  case (waited g1)
  then show ?thesis
    using assms(1) basic_inv_waiting round_delay_step_Return by blast
next
  case (played g1 g2)
  then show ?thesis
    using assms(1) basic_inv_waiting basic_inv_round_delay basic_inv_play_frame by blast
qed

lemma reachable_basic_inv: "reachable sz g \<Longrightarrow> basic_inv sz g"
proof (induction rule: reachable.induct)
  case reachable_init
  show ?case by (rule basic_inv_init)
next
  case (reachable_step g c g1)
  then show ?case
    by (cases c) (auto simp: basic_inv_update_scene basic_inv_process_event)
qed

subsection \<open>A frame of play without and with a point\<close>

lemma play_frame_idle:
  assumes "\<not> scores_now (moved g)"
  shows "play_frame e g =
    game_over_check (ai_paddle_movement e (paddle_movement (wall_collision (moved g))))"
proof -
  have "\<not> scores_now (ai_paddle_movement e (paddle_movement (wall_collision (moved g))))"
    using assms by (simp add: scores_now_later)
  then show ?thesis
    using assms by (simp add: play_frame_def moved_def[symmetric] check_scoring_idle out_of_bounds_idle)
qed

lemma moved_fields:
  "surface_size (moved g) = surface_size g"
  "rect_w (ball (moved g)) = rect_w (ball g)"
  "rect_h (ball (moved g)) = rect_h (ball g)"
  "player (moved g) = player g"
  "ai (moved g) = ai g"
  "player_score (moved g) = player_score g"
  "ai_score (moved g) = ai_score g"
  "wait_after_score (moved g) = wait_after_score g"
  "serve (moved g) = serve g"
  "is_valid (moved g) = is_valid g"
  "player_move_up (moved g) = player_move_up g"
  "player_move_down (moved g) = player_move_down g"
  "player_speed (moved g) = player_speed g"
  "ai_speed (moved g) = ai_speed g"
  "snd (ball_velocity (moved g)) = snd (ball_velocity g)"
  "rect_y (ball (moved g)) = rect_y (ball g) + snd (ball_velocity g)"
  "rect_x (ball (moved g)) = rect_x (ball g) + fst (ball_velocity (paddle_collision g))"
  by (simp_all add: moved_def frame_fields)

lemma moved_x_range:
  assumes "velocity_ok g"
  shows "rect_x (ball (moved g)) = rect_x (ball g) + 8 \<or> rect_x (ball (moved g)) = rect_x (ball g) - 8"
  using assms by (auto simp: moved_fields paddle_collision_velocity velocity_ok_def)

lemma play_frame_scored:
  assumes "0 \<le> fst (surface_size g)" "rect_w (ball g) = 30" "scores_now (moved g)"
  shows "rect_x (ball (play_frame e g)) = fst (surface_size g) div 2 - 15"
    and "rect_y (ball (play_frame e g)) = snd (surface_size g) div 2 - 15"
    and "wait_after_score (play_frame e g)"
    and "score_time (play_frame e g) = ticks_reset1 e"
    and "fst (ball_velocity (play_frame e g)) = 8 * random_choice (fst (choice1 e))"
    and "ai_score (play_frame e g) = ai_score g + (if rect_right (ball (moved g)) < 0 then 1 else 0)"
    and "player_score (play_frame e g) =
           player_score g + (if rect_right (ball (moved g)) < 0 then 0 else 1)"
  using check_scoring_scored[OF assms(3), of e]
  by (simp_all add: play_frame_eq[OF assms(1,2)] frame_fields moved_fields)

lemma play_frame_not_scored:
  assumes "\<not> scores_now (moved g)"
  shows "ball (play_frame e g) = ball (moved g)"
    and "wait_after_score (play_frame e g) = wait_after_score g"
    and "score_time (play_frame e g) = score_time g"
    and "fst (ball_velocity (play_frame e g)) = fst (ball_velocity (paddle_collision g))"
    and "ai_score (play_frame e g) = ai_score g"
    and "player_score (play_frame e g) = player_score g"
  by (simp_all add: play_frame_idle[OF assms] frame_fields moved_fields)
     (simp_all add: moved_def frame_fields)

subsection \<open>The phases\<close>

lemma phase_ok_play_frame:
  assumes "shapes_ok sz g" "velocity_ok g" "surface_ok sz" "\<not> wait_after_score g"
    and "serve g \<Longrightarrow> rect_x (ball g) = fst sz div 2 - 15"
  shows "phase_ok (play_frame e g)"
proof (cases "scores_now (moved g)")
  case True
  have sz: "surface_size g = sz" "rect_w (ball g) = 30" "0 \<le> fst sz" "200 \<le> fst sz"
    using assms(1,3) by (simp_all add: shapes_ok_def surface_ok_def)
  have "\<not> serve g"
  proof
    assume "serve g"
    then have "rect_x (ball g) = fst sz div 2 - 15" by (rule assms(5))
    with moved_x_range[OF assms(2)] True sz show False
      by (auto simp: scores_now_def rect_defs moved_fields)
  qed
  then show ?thesis
    using play_frame_scored(1,3)[of g e] True sz
    by (simp add: phase_ok_def play_frame_flags)
next
  case False
  show ?thesis
    using play_frame_not_scored(1,2)[OF False, of e] assms(1,4,5) moved_x_range[OF assms(2)]
    by (auto simp: phase_ok_def play_frame_flags shapes_ok_def Let_def)
qed

subsection \<open>The vertical axis\<close>

lemma paddle_movement_player_y:
  "rect_y (player (paddle_movement g)) =
     (let y1 = (if player_move_up g \<and> 0 < rect_y (player g)
                then rect_y (player g) - player_speed g else rect_y (player g))
      in if player_move_down g \<and> y1 + rect_h (player g) < snd (surface_size g)
         then y1 + player_speed g else y1)"
  by (auto simp: paddle_movement_def Let_def rect_defs)

lemma ai_paddle_movement_ai_y:
  "rect_y (ai (ai_paddle_movement e g)) =
     (if rect_centery (ball g) + ai_random e < rect_centery (ai g) - 60 \<and> 0 < rect_y (ai g)
      then rect_y (ai g) - ai_speed g
      else if rect_y (ball g) + ai_random e > rect_centery (ai g) + 60
              \<and> rect_y (ai g) + rect_h (ai g) < snd (surface_size g)
      then rect_y (ai g) + ai_speed g
      else rect_y (ai g))"
  by (auto simp: ai_paddle_movement_def Let_def rect_defs)

lemma mod_step_down:
  fixes y k n :: int
  assumes "(y - k) mod n = 0"
  shows "(y - n - k) mod n = 0"
proof -
  have "n dvd (y - k)" using assms by (simp only: mod_eq_0_iff_dvd)
  then have "n dvd (y - k) - n" by (rule dvd_diff) (rule dvd_refl)
  moreover have "(y - k) - n = y - n - k" by arith
  ultimately have "n dvd y - n - k" by (simp only:)
  then show ?thesis by (simp only: mod_eq_0_iff_dvd)
qed

lemma mod_step_up:
  fixes y k n :: int
  assumes "(y - k) mod n = 0"
  shows "(y + n - k) mod n = 0"
proof -
  have "n dvd (y - k)" using assms by (simp only: mod_eq_0_iff_dvd)
  then have "n dvd (y - k) + n" by (rule dvd_add) (rule dvd_refl)
  moreover have "(y - k) + n = y + n - k" by arith
  ultimately have "n dvd y + n - k" by (simp only:)
  then show ?thesis by (simp only: mod_eq_0_iff_dvd)
qed

lemma player_vertical_ok_paddle_movement:
  assumes "player_vertical_ok g" "player_speed g = 12" "rect_h (player g) = 180"
  shows "player_vertical_ok (paddle_movement g)"
proof -
  define k where "k = snd (surface_size g) div 2 - 80"
  define y where "y = rect_y (player g)"
  define y1 where "y1 = (if player_move_up g \<and> 0 < y then y - 12 else y)"
  define y2 where "y2 = (if player_move_down g \<and> y1 + 180 < snd (surface_size g) then y1 + 12 else y1)"
  have pre: "- 12 < y" "y + 180 < snd (surface_size g) + 12" "(y - k) mod 12 = 0"
    using assms(1) by (simp_all add: player_vertical_ok_def Let_def y_def k_def)
  have one: "- 12 < y1" "y1 + 180 < snd (surface_size g) + 12" "(y1 - k) mod 12 = 0"
    using pre mod_step_down[OF pre(3)] by (auto simp: y1_def)
  have two: "- 12 < y2" "y2 + 180 < snd (surface_size g) + 12" "(y2 - k) mod 12 = 0"
    using one mod_step_up[OF one(3)] by (auto simp: y2_def)
  have "rect_y (player (paddle_movement g)) = y2"
    using assms(2,3) by (simp add: paddle_movement_player_y y2_def y1_def y_def Let_def)
  then show ?thesis
    using two by (simp add: player_vertical_ok_def paddle_movement_fields Let_def k_def)
qed

lemma ai_vertical_ok_ai_paddle_movement:
  assumes "ai_vertical_ok g" "ai_speed g = 9" "rect_h (ai g) = 180"
  shows "ai_vertical_ok (ai_paddle_movement e g)"
proof -
  define k where "k = snd (surface_size g) div 2 - 80"
  define y where "y = rect_y (ai g)"
  have pre: "- 9 < y" "y + 180 < snd (surface_size g) + 9" "(y - k) mod 9 = 0"
    using assms(1) by (simp_all add: ai_vertical_ok_def Let_def y_def k_def)
  have "rect_y (ai (ai_paddle_movement e g)) = y - 9 \<and> 0 < y
      \<or> rect_y (ai (ai_paddle_movement e g)) = y + 9 \<and> y + 180 < snd (surface_size g)
      \<or> rect_y (ai (ai_paddle_movement e g)) = y"
    using assms(2,3) by (simp add: ai_paddle_movement_ai_y y_def)
  then show ?thesis
    using pre mod_step_down[OF pre(3)] mod_step_up[OF pre(3)]
    by (auto simp: ai_vertical_ok_def ai_paddle_movement_fields Let_def k_def)
qed

lemma ball_vertical_ok_wall_moved:
  assumes "ball_vertical_ok g" "velocity_ok g" "rect_h (ball g) = 30" "200 \<le> snd (surface_size g)"
  shows "ball_vertical_ok (wall_collision (moved g))"
proof -
  define h where "h = snd (surface_size g)"
  define k where "k = h div 2 - 15"
  define y where "y = rect_y (ball g)"
  define vy where "vy = snd (ball_velocity g)"
  have pre: "(0 < y \<and> y + 30 < h) \<or> (- 8 < y \<and> y \<le> 0 \<and> vy = 8)
         \<or> (h \<le> y + 30 \<and> y + 30 < h + 8 \<and> vy = - 8)" "(y - k) mod 8 = 0"
    using assms(1) by (simp_all add: ball_vertical_ok_def Let_def y_def k_def h_def vy_def)
  have vy: "vy = 8 \<or> vy = - 8"
    using assms(2) by (simp add: velocity_ok_def vy_def)
  have m: "((y + vy) - k) mod 8 = 0"
    using vy mod_step_down[OF pre(2)] mod_step_up[OF pre(2)] by auto
  have y': "rect_y (ball (wall_collision (moved g))) = y + vy"
    by (simp add: wall_collision_fields moved_fields y_def vy_def)
  have v': "snd (ball_velocity (wall_collision (moved g))) =
      (if h \<le> y + vy + 30 \<or> y + vy \<le> 0 then - vy else vy)"
    using assms(3)
    by (simp add: wall_collision_velocity moved_fields rect_defs y_def vy_def h_def)
  have s': "snd (surface_size (wall_collision (moved g))) = h"
    by (simp add: wall_collision_fields moved_fields h_def)
  have "200 \<le> h" using assms(4) by (simp add: h_def)
  with pre(1) vy have "(0 < y + vy \<and> y + vy + 30 < h)
      \<or> (- 8 < y + vy \<and> y + vy \<le> 0 \<and> (if h \<le> y + vy + 30 \<or> y + vy \<le> 0 then - vy else vy) = 8)
      \<or> (h \<le> y + vy + 30 \<and> y + vy + 30 < h + 8
          \<and> (if h \<le> y + vy + 30 \<or> y + vy \<le> 0 then - vy else vy) = - 8)"
    by auto
  then show ?thesis
    unfolding ball_vertical_ok_def Let_def y' v' s' k_def[symmetric]
    using m by blast
qed

lemma player_vertical_ok_cong:
  "surface_size g' = surface_size g \<Longrightarrow> player g' = player g \<Longrightarrow>
   player_vertical_ok g' = player_vertical_ok g"
  by (simp add: player_vertical_ok_def)

lemma ai_vertical_ok_cong:
  "surface_size g' = surface_size g \<Longrightarrow> ai g' = ai g \<Longrightarrow>
   ai_vertical_ok g' = ai_vertical_ok g"
  by (simp add: ai_vertical_ok_def)

lemma ball_vertical_ok_cong:
  "surface_size g' = surface_size g \<Longrightarrow> ball g' = ball g \<Longrightarrow>
   snd (ball_velocity g') = snd (ball_velocity g) \<Longrightarrow>
   ball_vertical_ok g' = ball_vertical_ok g"
  by (simp add: ball_vertical_ok_def)

lemma check_scoring_player_vertical:
  assumes "player_vertical_ok g" "200 \<le> snd (surface_size g)"
  shows "player_vertical_ok (check_scoring e g)"
proof (cases "scores_now g")
  case True
  have "- 12 < snd (surface_size g) div 2 - 80"
    "snd (surface_size g) div 2 - 80 + 180 < snd (surface_size g) + 12"
    using assms(2) by arith+
  then show ?thesis
    by (simp add: player_vertical_ok_def check_scoring_scored(7)[OF True] check_scoring_fields)
next
  case False
  then show ?thesis using assms(1) by (simp add: check_scoring_idle)
qed

lemma check_scoring_ai_vertical:
  assumes "ai_vertical_ok g" "200 \<le> snd (surface_size g)"
  shows "ai_vertical_ok (check_scoring e g)"
proof (cases "scores_now g")
  case True
  have "- 9 < snd (surface_size g) div 2 - 80"
    "snd (surface_size g) div 2 - 80 + 180 < snd (surface_size g) + 9"
    using assms(2) by arith+
  then show ?thesis
    by (simp add: ai_vertical_ok_def check_scoring_scored(9)[OF True] check_scoring_fields)
next
  case False
  then show ?thesis using assms(1) by (simp add: check_scoring_idle)
qed

lemma check_scoring_ball_vertical:
  assumes "ball_vertical_ok g" "velocity_ok g" "rect_h (ball g) = 30"
    "200 \<le> snd (surface_size g)"
  shows "ball_vertical_ok (wall_collision (check_scoring e (moved g)))"
proof (cases "scores_now (moved g)")
  case True
  let ?c = "check_scoring e (moved g)"
  have y: "rect_y (ball ?c) = snd (surface_size g) div 2 - 15"
    using check_scoring_scored(2)[OF True, of e] by (simp add: moved_fields)
  have inside: "0 < snd (surface_size g) div 2 - 15"
    "snd (surface_size g) div 2 - 15 + 30 < snd (surface_size g)"
    using assms(4) by arith+
  have "rect_h (ball ?c) = 30" using assms(3) by (simp add: check_scoring_fields moved_fields)
  then have "wall_collision ?c = ?c"
    using inside y by (simp add: wall_collision_def rect_defs check_scoring_fields moved_fields)
  then show ?thesis
    using inside y by (simp add: ball_vertical_ok_def check_scoring_fields moved_fields)
next
  case False
  then show ?thesis
    using ball_vertical_ok_wall_moved[OF assms] by (simp add: check_scoring_idle)
qed

lemma vertical_ok_play_frame:
  assumes "shapes_ok sz g" "velocity_ok g" "vertical_ok g" "surface_ok sz"
  shows "vertical_ok (play_frame e g)"
proof -
  let ?c = "check_scoring e (moved g)"
  let ?w = "wall_collision ?c"
  let ?p = "paddle_movement ?w"
  let ?a = "ai_paddle_movement e ?p"
  have sz: "rect_w (ball g) = 30" "rect_h (ball g) = 30"
    "rect_h (player g) = 180" "rect_h (ai g) = 180" "player_speed g = 12" "ai_speed g = 9"
    "0 \<le> fst (surface_size g)" "200 \<le> snd (surface_size g)"
    using assms(1,4) by (auto simp: shapes_ok_def surface_ok_def)
  have eq: "play_frame e g = game_over_check ?a"
    by (rule play_frame_eq) (simp_all add: sz)
  have "ball_vertical_ok ?w"
    using assms(2,3) sz by (intro check_scoring_ball_vertical) (simp_all add: vertical_ok_def)
  then have b: "ball_vertical_ok (play_frame e g)"
    by (simp add: eq ball_vertical_ok_cong[of "game_over_check ?a" ?w] frame_fields)
  have "player_vertical_ok (moved g)"
    using assms(3) by (simp add: vertical_ok_def player_vertical_ok_cong[of "moved g" g] moved_fields)
  then have "player_vertical_ok ?c"
    using sz by (intro check_scoring_player_vertical) (simp_all add: moved_fields)
  then have "player_vertical_ok ?w"
    by (simp add: player_vertical_ok_cong[of ?w ?c] frame_fields)
  then have "player_vertical_ok ?p"
    using sz by (intro player_vertical_ok_paddle_movement) (simp_all add: frame_fields moved_fields)
  then have p: "player_vertical_ok (play_frame e g)"
    by (simp add: eq player_vertical_ok_cong[of "game_over_check ?a" ?p] frame_fields)
  have "ai_vertical_ok (moved g)"
    using assms(3) by (simp add: vertical_ok_def ai_vertical_ok_cong[of "moved g" g] moved_fields)
  then have "ai_vertical_ok ?c"
    using sz by (intro check_scoring_ai_vertical) (simp_all add: moved_fields)
  then have "ai_vertical_ok ?p"
    by (simp add: ai_vertical_ok_cong[of ?p ?c] frame_fields)
  then have "ai_vertical_ok ?a"
    using sz by (intro ai_vertical_ok_ai_paddle_movement) (simp_all add: frame_fields moved_fields)
  then have a: "ai_vertical_ok (play_frame e g)"
    by (simp add: eq ai_vertical_ok_cong[of "game_over_check ?a" ?a] frame_fields)
  from b p a show ?thesis by (simp add: vertical_ok_def)
qed

subsection \<open>The invariant of the reachable states\<close>

lemma GameScreen_inv_init:
  assumes "surface_ok sz"
  shows "GameScreen_inv sz (GameScreen_init sz)"
proof -
  have "200 \<le> snd sz" using assms by (simp add: surface_ok_def)
  then have "0 < snd sz div 2 - 15" "snd sz div 2 - 15 + 30 < snd sz"
    "- 12 < snd sz div 2 - 80" "snd sz div 2 - 80 + 180 < snd sz + 9"
    by arith+
  then have "phase_ok (GameScreen_init sz)" "vertical_ok (GameScreen_init sz)"
    by (simp_all add: phase_ok_def vertical_ok_def
        ball_vertical_ok_def player_vertical_ok_def ai_vertical_ok_def GameScreen_init_def
        Rect_def)
  then show ?thesis
    using basic_inv_init[of sz] by (simp only: GameScreen_inv_def simp_thms)
qed

lemma GameScreen_inv_process_event:
  assumes "GameScreen_inv sz g"
  shows "GameScreen_inv sz (process_event ev g)"
  using assms
  by (simp add: GameScreen_inv_def basic_inv_process_event phase_ok_def vertical_ok_def
      ball_vertical_ok_def player_vertical_ok_def ai_vertical_ok_def process_event_fields)

lemma GameScreen_inv_update_scene:
  assumes "GameScreen_inv sz g" "surface_ok sz" "update_scene e g = Inr g'"
  shows "GameScreen_inv sz g'"
  using assms(3)
proof (cases rule: update_scene_cases)
  case served
  have "basic_inv sz g'"
    using assms(1) served basic_inv_waiting[of sz g e g'] by (simp add: GameScreen_inv_def)
  moreover have "phase_ok g'" "vertical_ok g'"
    using assms(1) countdown_step_Return(1,2)[OF served] countdown_step_fields[of e g g'] served
    by (simp_all add: GameScreen_inv_def phase_ok_def vertical_ok_def
        ball_vertical_ok_def player_vertical_ok_def ai_vertical_ok_def)
  ultimately show ?thesis by (simp add: GameScreen_inv_def)
next
  case (waited g1)
  have g1: "g' = g1" using waited(2) round_delay_step_Return by blast
  have "basic_inv sz g1"
    using assms(1) waited(1) basic_inv_waiting[of sz g e g1] by (simp add: GameScreen_inv_def)
  moreover have "phase_ok g1" "vertical_ok g1"
    using assms(1) countdown_step_Continue(1)[OF waited(1)] countdown_step_fields[of e g g1] waited(1)
    by (simp_all add: GameScreen_inv_def phase_ok_def vertical_ok_def
        ball_vertical_ok_def player_vertical_ok_def ai_vertical_ok_def)
  ultimately show ?thesis by (simp add: GameScreen_inv_def g1)
next
  case (played g1 g2)
  have b1: "basic_inv sz g1"
    using assms(1) played(1) basic_inv_waiting[of sz g e g1] by (simp add: GameScreen_inv_def)
  then have b2: "basic_inv sz g2" using played(2) basic_inv_round_delay by blast
  note f1 = countdown_step_fields[of e g g1] countdown_step_Continue(1)[OF played(1)]
  note f2 = round_delay_step_Continue[OF played(2)]
  have v: "vertical_ok g2"
    using assms(1) f1 f2 played(1)
    by (simp add: GameScreen_inv_def vertical_ok_def
        ball_vertical_ok_def player_vertical_ok_def ai_vertical_ok_def)
  have sz: "surface_size g = sz" using assms(1) by (simp add: GameScreen_inv_def basic_inv_def shapes_ok_def)
  have x: "serve g2 \<Longrightarrow> rect_x (ball g2) = fst sz div 2 - 15"
    using assms(1) f1 f2 played(1) sz
    by (auto simp: GameScreen_inv_def phase_ok_def Let_def)
  have "phase_ok (play_frame e g2)"
    using b2 assms(2) f2(17) x by (intro phase_ok_play_frame[of sz]) (simp_all add: basic_inv_def)
  moreover have "vertical_ok (play_frame e g2)"
    using b2 v assms(2) by (intro vertical_ok_play_frame[of sz]) (simp_all add: basic_inv_def)
  ultimately show ?thesis
    using b2 by (simp add: GameScreen_inv_def played(3) basic_inv_play_frame)
qed

lemma reachable_GameScreen_inv:
  assumes "reachable sz g" "surface_ok sz"
  shows "GameScreen_inv sz g"
  using assms
proof (induction rule: reachable.induct)
  case reachable_init
  then show ?case by (simp add: GameScreen_inv_init)
next
  case (reachable_step g c g1)
  then show ?case
    by (cases c) (auto simp: GameScreen_inv_update_scene GameScreen_inv_process_event)
qed


section \<open>Runs and reachability\<close>

lemma run_reachable:
  assumes "reachable sz g" "list_all call_ok cs" "run cs g = Inr g'"
  shows "reachable sz g'"
  using assms
proof (induction cs arbitrary: g)
  case Nil
  then show ?case by simp
next
  case (Cons c cs)
  from Cons.prems(3) obtain g1 where g1: "step c g = Inr g1" "run cs g1 = Inr g'"
    by (auto split: sum.splits)
  from Cons.prems(1,2) g1(1) have "reachable sz g1"
    by (auto intro: reachable_step)
  with Cons.IH g1(2) Cons.prems(2) show ?case by simp
qed

lemma call_ok_frames_from: "list_all call_ok (frames_from a n)"
  by (simp add: frames_from_def list_all_iff inputs_ok_def frame_at_def)

lemma inputs_ok_frame_at: "inputs_ok (frame_at t)"
  by (simp add: inputs_ok_def frame_at_def)

lemma run_first_rally: "run (frames_from 0 45) (GameScreen_init (750, 750)) = Inr first_rally"
  by code_simp

lemma run_countdown_running:
  "run (frames_from 0 1) (GameScreen_init (750, 750)) = Inr countdown_running"
  by code_simp

lemma run_waiting_after_point:
  "run (frames_from 0 182) (GameScreen_init (750, 750)) = Inr waiting_after_point"
  by code_simp

lemma run_match_point: "run (frames_from 182 49) waiting_after_point = Inr match_point"
  by code_simp

lemma run_paddle_near_top:
  "run (Event (KEYDOWN K_w) # frames_from 0 25) (GameScreen_init (750, 750)) = Inr paddle_near_top"
  by code_simp

lemma update_paddle_near_top:
  "update_scene (frame_at 25000) paddle_near_top = Inr paddle_past_top"
  by code_simp

lemma update_ball_below_ai: "update_scene (frame_at 9000) ball_below_ai = Inr ai_stays"
  by code_simp

lemma update_countdown_running:
  "update_scene (frame_at 1000) countdown_running = Inr first_frame"
  by code_simp

lemma update_waiting_after_point:
  "update_scene (frame_at 182000) waiting_after_point = Inr serving_again"
  by code_simp

lemma update_after_match: "update_scene (frame_at 281000) after_match = Inr fourth_point"
  by code_simp

lemma run_after_match: "run (frames_from 231 50) match_point = Inr after_match"
  by code_simp

lemma run_ball_below_ai: "run (frames_from 0 9) (GameScreen_init (750, 750)) = Inr ball_below_ai"
  by code_simp

lemma reachable_first_rally: "reachable (750, 750) first_rally"
  using run_reachable[OF reachable_init call_ok_frames_from run_first_rally] .

lemma reachable_countdown_running: "reachable (750, 750) countdown_running"
  using run_reachable[OF reachable_init call_ok_frames_from run_countdown_running] .

lemma reachable_waiting_after_point: "reachable (750, 750) waiting_after_point"
  using run_reachable[OF reachable_init call_ok_frames_from run_waiting_after_point] .

lemma reachable_match_point: "reachable (750, 750) match_point"
  using run_reachable[OF reachable_waiting_after_point call_ok_frames_from run_match_point] .

lemma reachable_after_match: "reachable (750, 750) after_match"
  using run_reachable[OF reachable_match_point call_ok_frames_from run_after_match] .

lemma reachable_paddle_near_top: "reachable (750, 750) paddle_near_top"
proof -
  have "list_all call_ok (Event (KEYDOWN K_w) # frames_from 0 25)"
    using call_ok_frames_from by simp
  from run_reachable[OF reachable_init this run_paddle_near_top] show ?thesis .
qed

lemma reachable_update:
  assumes "reachable sz g" "inputs_ok e" "update_scene e g = Inr g'"
  shows "reachable sz g'"
  using reachable_step[OF assms(1), of "Update e" g'] assms(2,3) by simp

lemma reachable_paddle_past_top: "reachable (750, 750) paddle_past_top"
  using reachable_update[OF reachable_paddle_near_top inputs_ok_frame_at update_paddle_near_top] .

lemma reachable_ball_below_ai: "reachable (750, 750) ball_below_ai"
  using run_reachable[OF reachable_init call_ok_frames_from run_ball_below_ai] .

lemma surface_ok_750: "surface_ok (750, 750)"
  by (simp add: surface_ok_def)

section \<open>Scores\<close>

lemma play_frame_scores:
  assumes "0 \<le> fst (surface_size g)" "rect_w (ball g) = 30"
  shows "ai_score (play_frame e g) =
           ai_score g + (if rect_right (ball (moved g)) < 0 then 1 else 0)"
    and "player_score (play_frame e g) =
           player_score g + (if \<not> rect_right (ball (moved g)) < 0
                                 \<and> rect_left (ball (moved g)) > fst (surface_size g)
                              then 1 else 0)"
proof -
  show "ai_score (play_frame e g) =
           ai_score g + (if rect_right (ball (moved g)) < 0 then 1 else 0)"
  proof (cases "scores_now (moved g)")
    case True
    then show ?thesis using play_frame_scored(6)[OF assms True] by simp
  next
    case False
    then show ?thesis
      using play_frame_not_scored(5)[OF False] by (simp add: scores_now_def)
  qed
  show "player_score (play_frame e g) =
           player_score g + (if \<not> rect_right (ball (moved g)) < 0
                                 \<and> rect_left (ball (moved g)) > fst (surface_size g)
                              then 1 else 0)"
  proof (cases "scores_now (moved g)")
    case True
    then show ?thesis
      using play_frame_scored(7)[OF assms True] by (auto simp: scores_now_def moved_fields)
  next
    case False
    then show ?thesis
      using play_frame_not_scored(6)[OF False] by (simp add: scores_now_def moved_fields)
  qed
qed

lemma update_scene_scores:
  assumes "basic_inv sz g" "0 \<le> fst sz" "update_scene e g = Inr g'"
  shows "player_score g \<le> player_score g' \<and> ai_score g \<le> ai_score g'
    \<and> player_score g' + ai_score g' \<le> player_score g + ai_score g + 1"
  using assms(3)
proof (cases rule: update_scene_cases)
  case served
  then show ?thesis
    using countdown_step_fields(12,13)[of e g g'] by simp
next
  case (waited g1)
  then show ?thesis
    using countdown_step_fields(12,13)[of e g g1] round_delay_step_Return[of e g1 g'] by simp
next
  case (played g1 g2)
  have s: "player_score g2 = player_score g" "ai_score g2 = ai_score g"
    using countdown_step_fields(12,13)[of e g g1] round_delay_step_Continue(12,13)[OF played(2)]
      played(1) by simp_all
  have "basic_inv sz g2"
    using assms(1) played basic_inv_waiting[of sz g e g1] basic_inv_round_delay by blast
  then have "0 \<le> fst (surface_size g2)" "rect_w (ball g2) = 30"
    using assms(2) by (simp_all add: basic_inv_def shapes_ok_def)
  from play_frame_scores[OF this, of e] s played(3)
  show ?thesis by simp
qed

lemma second_test_idle:
  assumes "0 \<le> fst (surface_size h)" "rect_w (ball h) = 30"
  shows "out_of_bounds e (ai_paddle_movement e (paddle_movement (wall_collision (check_scoring e h))))
    = ai_paddle_movement e (paddle_movement (wall_collision (check_scoring e h)))"
  using scores_now_check_scoring[OF assms, of e]
  by (simp add: out_of_bounds_idle scores_now_later)

text \<open>
  C8: in every reachable state each component of the ball's velocity is 8 or -8. The
  paddle contact and the wall contact only negate one component, and every reset of the
  ball assigns 8 times a sign drawn for each axis on its own.
\<close>

theorem C8_velocity_components:
  assumes "reachable sz g"
  shows "(fst (ball_velocity g) = 8 \<or> fst (ball_velocity g) = - 8)
    \<and> (snd (ball_velocity g) = 8 \<or> snd (ball_velocity g) = - 8)
    \<and> ball_velocity (paddle_collision g) \<in>
        {ball_velocity g, (- fst (ball_velocity g), snd (ball_velocity g))}
    \<and> ball_velocity (wall_collision g) \<in>
        {ball_velocity g, (fst (ball_velocity g), - snd (ball_velocity g))}
    \<and> ball_velocity (move_ball g) = ball_velocity g
    \<and> ball_velocity (reset_ball cs now g) = (8 * random_choice (fst cs), 8 * random_choice (snd cs))
    \<and> (random_choice c = 1 \<or> random_choice c = - 1)"
proof -
  have "velocity_ok g"
    using reachable_basic_inv[OF assms] by (simp add: basic_inv_def)
  then show ?thesis
    by (auto simp: velocity_ok_def paddle_collision_def wall_collision_def move_ball_def
        reset_ball_def random_choice_def)
qed

theorem C8_velocity_components_witness:
  "reachable (750, 750) first_rally
   \<and> (fst (ball_velocity first_rally) = 8 \<or> fst (ball_velocity first_rally) = - 8)
   \<and> (snd (ball_velocity first_rally) = 8 \<or> snd (ball_velocity first_rally) = - 8)
   \<and> ball_velocity first_rally = (- 8, 8)
   \<and> ball_velocity (wall_collision first_rally) = (- 8, 8)
   \<and> ball_velocity (reset_ball (True, False) 0 first_rally) = (8, - 8)"
proof -
  have "ball_velocity first_rally = (- 8, 8)"
    "ball_velocity (wall_collision first_rally) = (- 8, 8)"
    "ball_velocity (reset_ball (True, False) 0 first_rally) = (8, - 8)"
    by (simp_all add: first_rally_def wall_collision_def rect_defs reset_ball_def
        random_choice_def)
  then show ?thesis
    using C8_velocity_components[OF reachable_first_rally, of "(True, False)" 0 True]
      reachable_first_rally
    by blast
qed

text \<open>
  C10: one call of \<open>update_scene\<close> from a reachable state returns, lowers neither score
  and raises their sum by at most 1. The second out-of-bounds test never fires: after
  the first test the ball is either inside the surface or back at its centre, and
  nothing moves it before the second test. (The surface is not of negative width.)
\<close>

theorem C10_one_point_per_call:
  assumes "reachable sz g" "0 \<le> fst sz"
  shows "\<exists>g'. update_scene e g = Inr g'
      \<and> player_score g \<le> player_score g' \<and> ai_score g \<le> ai_score g'
      \<and> player_score g' + ai_score g' \<le> player_score g + ai_score g + 1
      \<and> out_of_bounds e (ai_paddle_movement e (paddle_movement (wall_collision
            (check_scoring e (moved g)))))
          = ai_paddle_movement e (paddle_movement (wall_collision (check_scoring e (moved g))))"
proof -
  have b: "basic_inv sz g" by (rule reachable_basic_inv[OF assms(1)])
  then obtain g' where g': "update_scene e g = Inr g'"
    using update_scene_total[of g e] by (auto simp: basic_inv_def)
  have "0 \<le> fst (surface_size (moved g))" "rect_w (ball (moved g)) = 30"
    using b assms(2) by (simp_all add: basic_inv_def shapes_ok_def moved_fields)
  from second_test_idle[OF this, of e] update_scene_scores[OF b assms(2) g'] g'
  show ?thesis by simp
qed

lemma update_match_point:
  "(case update_scene (frame_at 231000) match_point of
      Inl err \<Rightarrow> False
    | Inr g' \<Rightarrow> ai_score g' = 3 \<and> player_score g' = 0 \<and> \<not> is_valid g')"
  by code_simp

theorem C10_one_point_per_call_witness:
  "reachable (750, 750) match_point \<and> (0::int) \<le> fst (750, 750)
   \<and> ai_score match_point = 2 \<and> player_score match_point = 0
   \<and> (\<exists>g'. update_scene (frame_at 231000) match_point = Inr g'
        \<and> ai_score g' = 3 \<and> player_score g' = 0
        \<and> player_score g' + ai_score g' \<le> player_score match_point + ai_score match_point + 1)"
  using C10_one_point_per_call[OF reachable_match_point, of "frame_at 231000"]
    reachable_match_point update_match_point
  by (auto simp: match_point_def split: sum.splits)

section \<open>Paddle contact\<close>

lemma update_scene_rallying:
  assumes "phase_of g = Rallying"
  shows "update_scene e g = Inr (play_frame e g)"
proof -
  have "\<not> serve g" "\<not> wait_after_score g"
    using assms by (auto simp: phase_of_def split: if_splits)
  then show ?thesis
    by (simp add: update_scene_def countdown_step_def round_delay_step_def)
qed

text \<open>
  C7: the contact test looks at the player paddle first and at the AI paddle only in
  its else-branch, so a frame negates the horizontal velocity at most once for paddle
  contact, also when the ball overlaps both paddles; the hit sound is played once. In
  a rally frame without a point, that is the only change of the horizontal velocity.
\<close>

theorem C7_one_flip_per_frame:
  "ball_velocity (paddle_collision g) =
     (if colliderect (ball g) (player g) \<or> colliderect (ball g) (ai g)
      then (- fst (ball_velocity g), snd (ball_velocity g)) else ball_velocity g)
   \<and> sounds (paddle_collision g) =
       sounds g @ (if colliderect (ball g) (player g) \<or> colliderect (ball g) (ai g)
                   then [Paddle_sound] else [])
   \<and> (colliderect (ball g) (player g) \<and> colliderect (ball g) (ai g) \<longrightarrow>
        fst (ball_velocity (paddle_collision g)) = - fst (ball_velocity g)
        \<and> sounds (paddle_collision g) = sounds g @ [Paddle_sound])
   \<and> (phase_of g = Rallying \<and> \<not> scores_now (moved g) \<longrightarrow>
        (\<exists>g'. update_scene e g = Inr g'
           \<and> fst (ball_velocity g') =
               (if colliderect (ball g) (player g) \<or> colliderect (ball g) (ai g)
                then - fst (ball_velocity g) else fst (ball_velocity g))))"
proof -
  have "phase_of g = Rallying \<and> \<not> scores_now (moved g) \<longrightarrow>
        (\<exists>g'. update_scene e g = Inr g'
           \<and> fst (ball_velocity g') =
               (if colliderect (ball g) (player g) \<or> colliderect (ball g) (ai g)
                then - fst (ball_velocity g) else fst (ball_velocity g)))"
    using update_scene_rallying[of g e] play_frame_not_scored(4)[of g e]
    by (simp add: paddle_collision_velocity)
  moreover have "ball_velocity (paddle_collision g) =
     (if colliderect (ball g) (player g) \<or> colliderect (ball g) (ai g)
      then (- fst (ball_velocity g), snd (ball_velocity g)) else ball_velocity g)"
    "sounds (paddle_collision g) =
       sounds g @ (if colliderect (ball g) (player g) \<or> colliderect (ball g) (ai g)
                   then [Paddle_sound] else [])"
    by (simp_all add: paddle_collision_def)
  ultimately show ?thesis by simp
qed

theorem C7_one_flip_per_frame_witness:
  "colliderect (ball between_paddles) (player between_paddles)
   \<and> colliderect (ball between_paddles) (ai between_paddles)
   \<and> phase_of between_paddles = Rallying \<and> \<not> scores_now (moved between_paddles)
   \<and> ball_velocity between_paddles = (8, 8)
   \<and> ball_velocity (paddle_collision between_paddles) = (- 8, 8)
   \<and> sounds (paddle_collision between_paddles) = [Paddle_sound]
   \<and> (\<exists>g'. update_scene (frame_at 0) between_paddles = Inr g' \<and> fst (ball_velocity g') = - 8)"
proof -
  have c: "colliderect (ball between_paddles) (player between_paddles)"
    "colliderect (ball between_paddles) (ai between_paddles)"
    by (simp_all add: between_paddles_def GameScreen_init_def Rect_def colliderect_def)
  have r: "phase_of between_paddles = Rallying"
    by (simp add: between_paddles_def GameScreen_init_def phase_of_def)
  have v: "ball_velocity between_paddles = (8, 8)" "sounds between_paddles = []"
    by (simp_all add: between_paddles_def GameScreen_init_def)
  have n: "\<not> scores_now (moved between_paddles)"
    using c v by (simp add: scores_now_def rect_defs moved_fields paddle_collision_velocity)
      (simp add: between_paddles_def GameScreen_init_def Rect_def)
  show ?thesis
    using C7_one_flip_per_frame[of between_paddles "frame_at 0"] c r v n by simp
qed

section \<open>Events\<close>

lemma update_scene_is_valid:
  assumes "update_scene e g = Inr g'"
  shows "is_valid g' = is_valid g
    \<or> is_valid g' = (is_valid g \<and> player_score g' < 3 \<and> ai_score g' < 3)"
  using assms
proof (cases rule: update_scene_cases)
  case served
  then show ?thesis using countdown_step_fields(1)[of e g g'] by simp
next
  case (waited g1)
  then show ?thesis
    using countdown_step_fields(1)[of e g g1] round_delay_step_Return[of e g1 g'] by simp
next
  case (played g1 g2)
  then have "is_valid g2 = is_valid g"
    using countdown_step_fields(1)[of e g g1] round_delay_step_Continue(1)[of e g1 g2] by simp
  then show ?thesis
    using played(3) play_frame_is_valid[of e g2] by simp
qed

text \<open>
  What \<open>GameScreen.process_event\<close> does: a key-down of W or Up sets the intent to move
  up, of S or Down the intent to move down, the key-up clears it, and every other event
  changes nothing; the validity flag and the scores are never touched. \<open>update_scene\<close>
  takes a valid scene to an invalid one only with a score at 3 or more.
\<close>

lemma process_event_flags:
  "is_valid (process_event ev g) = is_valid g
   \<and> player_score (process_event ev g) = player_score g
   \<and> ai_score (process_event ev g) = ai_score g
   \<and> player_move_up (process_event (KEYDOWN k) g) = (k = K_w \<or> k = K_UP \<or> player_move_up g)
   \<and> player_move_down (process_event (KEYDOWN k) g)
       = (k = K_s \<or> k = K_DOWN \<or> player_move_down g)
   \<and> player_move_up (process_event (KEYUP k) g) = (k \<noteq> K_w \<and> k \<noteq> K_UP \<and> player_move_up g)
   \<and> player_move_down (process_event (KEYUP k) g)
       = (k \<noteq> K_s \<and> k \<noteq> K_DOWN \<and> player_move_down g)
   \<and> process_event QUIT g = g \<and> process_event (OTHER_EVENT n) g = g
   \<and> (update_scene e g = Inr g' \<and> is_valid g \<and> \<not> is_valid g' \<longrightarrow>
        3 \<le> player_score g' \<or> 3 \<le> ai_score g')"
proof -
  have "update_scene e g = Inr g' \<and> is_valid g \<and> \<not> is_valid g' \<longrightarrow>
        3 \<le> player_score g' \<or> 3 \<le> ai_score g'"
    using update_scene_is_valid[of e g g'] by auto
  moreover have "player_move_up (process_event (KEYDOWN k) g) = (k = K_w \<or> k = K_UP \<or> player_move_up g)"
    "player_move_down (process_event (KEYDOWN k) g) = (k = K_s \<or> k = K_DOWN \<or> player_move_down g)"
    "player_move_up (process_event (KEYUP k) g) = (k \<noteq> K_w \<and> k \<noteq> K_UP \<and> player_move_up g)"
    "player_move_down (process_event (KEYUP k) g) = (k \<noteq> K_s \<and> k \<noteq> K_DOWN \<and> player_move_down g)"
    by (auto simp: Let_def)
  ultimately show ?thesis
    by (simp add: process_event_fields)
qed

text \<open>
  C5: the base handler \<open>Scene.process_event\<close> clears the validity flag on a quit event
  and on an escape key-down, and the two other overrides, of \<open>PressAnyKeyToExitScene\<close>
  and of \<open>GameOver\<close>, call it first. \<open>GameScreen.process_event\<close> does not call it: an
  escape key-down (or a quit event) delivered to a \<open>GameScreen\<close> leaves the scene as it
  is, in every state. A \<open>GameScreen\<close> just made on the surface of 750 by 750 is valid,
  and is still valid after the escape key-down that the base handler would have
  answered by invalidating it.
\<close>

theorem C5_escape_not_handled:
  "process_event (KEYDOWN K_ESCAPE) g = g
   \<and> process_event QUIT g = g
   \<and> is_valid (process_event (KEYDOWN K_ESCAPE) g) = is_valid g
   \<and> is_valid (snd (Scene_process_event (KEYDOWN K_ESCAPE) g)) = False
   \<and> is_valid (snd (Scene_process_event QUIT g)) = False
   \<and> is_valid (snd (PressAnyKeyToExitScene_process_event (KEYDOWN K_ESCAPE) s)) = False
   \<and> is_valid (GameScreen_init (750, 750)) = True
   \<and> is_valid (process_event (KEYDOWN K_ESCAPE) (GameScreen_init (750, 750))) = True
   \<and> is_valid (snd (Scene_process_event (KEYDOWN K_ESCAPE) (GameScreen_init (750, 750))))
       = False"
  by (simp add: Scene_process_event_def PressAnyKeyToExitScene_process_event_def
      GameScreen_init_def)

section \<open>Starting a scene\<close>



section \<open>The end of the match\<close>

lemma run_stays_invalid:
  assumes "\<not> is_valid g" "run cs g = Inr g'"
  shows "\<not> is_valid g'"
  using assms
proof (induction cs arbitrary: g)
  case Nil
  then show ?case by simp
next
  case (Cons c cs)
  from Cons.prems(2) obtain g1 where g1: "step c g = Inr g1" "run cs g1 = Inr g'"
    by (auto split: sum.splits)
  have "\<not> is_valid g1"
  proof (cases c)
    case (Update e)
    then show ?thesis
      using g1(1) Cons.prems(1) update_scene_is_valid[of e g g1] by auto
  next
    case (Event ev)
    then show ?thesis
      using g1(1) Cons.prems(1) by (auto simp: process_event_fields)
  qed
  with Cons.IH g1(2) show ?case by blast
qed

text \<open>
  C1, as stated, fails: \<open>update_scene\<close> does not look at the validity flag. In the
  reachable state \<open>after_match\<close> the scene is invalid with the AI at 3 points, and one
  more call of \<open>update_scene\<close> gives the AI a fourth point.
\<close>

theorem C1_counterexample:
  "run (frames_from 0 182) (GameScreen_init (750, 750)) = Inr waiting_after_point
   \<and> run (frames_from 182 49) waiting_after_point = Inr match_point
   \<and> run (frames_from 231 50) match_point = Inr after_match
   \<and> reachable (750, 750) after_match
   \<and> is_valid after_match = False \<and> ai_score after_match = 3
   \<and> inputs_ok (frame_at 281000)
   \<and> update_scene (frame_at 281000) after_match = Inr fourth_point
   \<and> ai_score fourth_point = 4"
  using run_waiting_after_point run_match_point run_after_match reachable_after_match
    inputs_ok_frame_at update_after_match
  by (simp add: after_match_def fourth_point_def)

text \<open>
  C1, amended: in every state reachable by calls of \<open>update_scene\<close> and
  \<open>process_event\<close> the scene is valid exactly while both scores are below 3. So the call
  of \<open>update_scene\<close> in which a score reaches 3 ends with \<open>is_valid\<close> false, and
  \<open>is_valid\<close> stays false under every later call. \<open>process_event\<close> changes no score, so
  the scores stay as they are after the invalidation for as long as \<open>update_scene\<close> is
  not called again. If the ball passes \<open>right < 0\<close> in a rally while the AI has 2 points,
  the AI has 3 points and \<open>is_valid\<close> is false after that call.
\<close>

theorem C1_match_termination:
  assumes "reachable sz g" "0 \<le> fst sz"
  shows "is_valid g = (player_score g < 3 \<and> ai_score g < 3)
    \<and> (\<exists>g'. update_scene e g = Inr g'
          \<and> is_valid g' = (player_score g' < 3 \<and> ai_score g' < 3)
          \<and> (\<not> is_valid g \<longrightarrow> \<not> is_valid g')
          \<and> (phase_of g = Rallying \<and> ai_score g = 2 \<and> rect_right (ball (moved g)) < 0
                \<longrightarrow> ai_score g' = 3 \<and> \<not> is_valid g'))
    \<and> (\<forall>cs g'. \<not> is_valid g \<and> run cs g = Inr g' \<longrightarrow> \<not> is_valid g')
    \<and> is_valid (process_event ev g) = is_valid g
    \<and> player_score (process_event ev g) = player_score g
    \<and> ai_score (process_event ev g) = ai_score g"
proof -
  have b: "basic_inv sz g" by (rule reachable_basic_inv[OF assms(1)])
  then obtain g' where g': "update_scene e g = Inr g'"
    using update_scene_total[of g e] by (auto simp: basic_inv_def)
  have b': "basic_inv sz g'" by (rule basic_inv_update_scene[OF b g'])
  have v: "is_valid g = (player_score g < 3 \<and> ai_score g < 3)"
    "is_valid g' = (player_score g' < 3 \<and> ai_score g' < 3)"
    using b b' by (simp_all add: basic_inv_def validity_ok_def)
  have keep: "\<not> is_valid g \<longrightarrow> \<not> is_valid g'"
    using update_scene_is_valid[OF g'] by auto
  have scenario: "ai_score g' = 3 \<and> \<not> is_valid g'"
    if r: "phase_of g = Rallying" "ai_score g = 2" "rect_right (ball (moved g)) < 0"
  proof -
    have "0 \<le> fst (surface_size g)" "rect_w (ball g) = 30"
      using b assms(2) by (simp_all add: basic_inv_def shapes_ok_def)
    from play_frame_scores(1)[OF this, of e] r update_scene_rallying[OF r(1), of e] g'
    have "ai_score g' = 3" by simp
    then show ?thesis using v(2) by simp
  qed
  show ?thesis
    using v keep scenario g' run_stays_invalid[of g]
    by (simp add: process_event_fields) blast
qed

theorem C1_match_termination_witness:
  "reachable (750, 750) match_point \<and> (0::int) \<le> fst (750 :: int, 750 :: int)
   \<and> is_valid match_point \<and> player_score match_point = 0 \<and> ai_score match_point = 2
   \<and> phase_of match_point = Rallying \<and> rect_right (ball (moved match_point)) < 0
   \<and> (\<exists>g'. update_scene (frame_at 231000) match_point = Inr g'
         \<and> ai_score g' = 3 \<and> \<not> is_valid g')
   \<and> \<not> is_valid after_match
   \<and> run [Update (frame_at 281000)] after_match = Inr fourth_point
   \<and> \<not> is_valid fourth_point"
proof -
  have m: "is_valid match_point" "player_score match_point = 0" "ai_score match_point = 2"
    "phase_of match_point = Rallying"
    by (simp_all add: match_point_def phase_of_def)
  have c: "\<not> colliderect (ball match_point) (player match_point)"
    "\<not> colliderect (ball match_point) (ai match_point)"
    by (simp_all add: match_point_def colliderect_def)
  have r: "rect_right (ball (moved match_point)) < 0"
    using c by (simp add: rect_defs moved_fields paddle_collision_velocity)
      (simp add: match_point_def)
  have a: "\<not> is_valid after_match" by (simp add: after_match_def)
  have f: "run [Update (frame_at 281000)] after_match = Inr fourth_point"
    using update_after_match by simp
  have z: "(0::int) \<le> fst (750 :: int, 750 :: int)" by simp
  note t1 = C1_match_termination[OF reachable_match_point z, of "frame_at 231000"]
  note t2 = C1_match_termination[OF reachable_after_match z, of "frame_at 281000"]
  have "\<not> is_valid fourth_point" using t2 a f by blast
  then show ?thesis
    using t1 m r a f z reachable_match_point by auto
qed

section \<open>The vertical axis\<close>

text \<open>
  C3, as stated, fails: the player paddle moves a whole step of 12 whenever its top is
  above 0, and nothing clamps it afterwards. With the W key held, 25 frames of a rally
  take the paddle from 295 to 7, and the next frame takes it to -5.
\<close>

theorem C3_counterexample:
  "run (Event (KEYDOWN K_w) # frames_from 0 25) (GameScreen_init (750, 750)) = Inr paddle_near_top
   \<and> reachable (750, 750) paddle_near_top
   \<and> phase_of paddle_near_top = Rallying \<and> rect_y (player paddle_near_top) = 7
   \<and> inputs_ok (frame_at 25000)
   \<and> update_scene (frame_at 25000) paddle_near_top = Inr paddle_past_top
   \<and> rect_y (player paddle_past_top) = - 5
   \<and> rect_y (player paddle_past_top) < 0"
  using run_paddle_near_top reachable_paddle_near_top inputs_ok_frame_at update_paddle_near_top
  by (simp add: paddle_near_top_def paddle_past_top_def phase_of_def)

text \<open>
  C3, amended: on a surface of at least 200 by 200, in every reachable state each
  paddle is within less than one of its steps of the surface: the player paddle's top
  is at least -11 and its bottom at most the height plus 11, the AI paddle's top is at
  least -8 and its bottom at most the height plus 8; the ball's top is at least -7 and
  its bottom at most the height plus 7. On the game's surface of 750 by 750 the ball
  stays between 0 and 750, the player paddle's top between -5 and 571, and the AI
  paddle's top between -2 and 574.
\<close>

theorem C3_vertical_bounds:
  assumes "reachable sz g" "surface_ok sz"
  shows "- 11 \<le> rect_top (player g) \<and> rect_bottom (player g) \<le> snd sz + 11
    \<and> - 8 \<le> rect_top (ai g) \<and> rect_bottom (ai g) \<le> snd sz + 8
    \<and> - 7 \<le> rect_top (ball g) \<and> rect_bottom (ball g) \<le> snd sz + 7
    \<and> (sz = (750, 750) \<longrightarrow>
          0 \<le> rect_top (ball g) \<and> rect_bottom (ball g) \<le> 750
          \<and> - 5 \<le> rect_top (player g) \<and> rect_top (player g) \<le> 571
          \<and> - 2 \<le> rect_top (ai g) \<and> rect_top (ai g) \<le> 574)"
proof -
  have i: "GameScreen_inv sz g" by (rule reachable_GameScreen_inv[OF assms])
  then have s: "surface_size g = sz" "rect_h (ball g) = 30" "rect_h (player g) = 180"
    "rect_h (ai g) = 180"
    by (simp_all add: GameScreen_inv_def basic_inv_def shapes_ok_def)
  define h where "h = snd sz"
  define py where "py = rect_y (player g)"
  define ay where "ay = rect_y (ai g)"
  define bly where "bly = rect_y (ball g)"
  have p: "- 12 < py" "py + 180 < h + 12" "(py - (h div 2 - 80)) mod 12 = 0"
    using i s by (simp_all add: GameScreen_inv_def vertical_ok_def player_vertical_ok_def
        Let_def py_def h_def)
  have a: "- 9 < ay" "ay + 180 < h + 9" "(ay - (h div 2 - 80)) mod 9 = 0"
    using i s by (simp_all add: GameScreen_inv_def vertical_ok_def ai_vertical_ok_def
        Let_def ay_def h_def)
  have "200 \<le> h" using assms(2) by (simp add: surface_ok_def h_def)
  then have bl: "- 8 < bly" "bly + 30 < h + 8" "(bly - (h div 2 - 15)) mod 8 = 0"
    using i s by (auto simp: GameScreen_inv_def vertical_ok_def ball_vertical_ok_def
        Let_def bly_def h_def)
  have general: "- 11 \<le> py \<and> py + 180 \<le> h + 11 \<and> - 8 \<le> ay \<and> ay + 180 \<le> h + 8
      \<and> - 7 \<le> bly \<and> bly + 30 \<le> h + 7"
    using p(1,2) a(1,2) bl(1,2) by simp
  have game: "0 \<le> bly \<and> bly + 30 \<le> 750 \<and> - 5 \<le> py \<and> py \<le> 571 \<and> - 2 \<le> ay \<and> ay \<le> 574"
    if "h = 750"
  proof -
    have "(py - 295) mod 12 = 0" "(ay - 295) mod 9 = 0" "(bly - 360) mod 8 = 0"
      using p(3) a(3) bl(3) that by simp_all
    moreover have "- 12 < py" "py < 582" "- 9 < ay" "ay < 579" "- 8 < bly" "bly < 728"
      using p(1,2) a(1,2) bl(1,2) that by simp_all
    ultimately show ?thesis by presburger
  qed
  show ?thesis
    using general game s
    by (auto simp: rect_defs py_def ay_def bly_def h_def)
qed

theorem C3_vertical_bounds_witness:
  "reachable (750, 750) paddle_past_top \<and> surface_ok (750, 750)
   \<and> rect_top (player paddle_past_top) = - 5
   \<and> - 11 \<le> rect_top (player paddle_past_top)
   \<and> rect_bottom (player paddle_past_top) \<le> snd (750 :: int, 750 :: int) + 11
   \<and> - 5 \<le> rect_top (player paddle_past_top) \<and> rect_top (player paddle_past_top) \<le> 571
   \<and> 0 \<le> rect_top (ball paddle_past_top) \<and> rect_bottom (ball paddle_past_top) \<le> 750
   \<and> - 2 \<le> rect_top (ai paddle_past_top) \<and> rect_top (ai paddle_past_top) \<le> 574"
proof -
  have "rect_top (player paddle_past_top) = - 5"
    by (simp add: paddle_past_top_def rect_defs)
  then show ?thesis
    using C3_vertical_bounds[OF reachable_paddle_past_top surface_ok_750]
      reachable_paddle_past_top surface_ok_750
    by simp
qed

section \<open>The AI paddle\<close>

text \<open>
  C6: the two tests of \<open>update_scene\<close> do not look at the same target. The test for
  moving up compares the ball's \<open>centery\<close> plus the jitter with the paddle's centre; the
  test for moving down compares the ball's \<open>y\<close> (its top edge, 15 above its centre) plus
  the jitter. In the reachable state \<open>ball_below_ai\<close>, with no jitter, the frame ends with
  the ball's centre at 447 and the paddle's centre at 385, 62 apart and so outside the
  dead zone of 60, with the paddle's bottom well inside the surface; the paddle does not
  move.
\<close>

theorem C6_down_test_uses_top_edge:
  "run (frames_from 0 9) (GameScreen_init (750, 750)) = Inr ball_below_ai
   \<and> phase_of ball_below_ai = Rallying
   \<and> inputs_ok (frame_at 9000) \<and> ai_random (frame_at 9000) = 0
   \<and> update_scene (frame_at 9000) ball_below_ai = Inr ai_stays
   \<and> rect_centery (ball ai_stays) + ai_random (frame_at 9000) = 447
   \<and> rect_centery (ai ball_below_ai) = 385
   \<and> rect_bottom (ai ball_below_ai) = 475
   \<and> rect_top (ball ai_stays) + ai_random (frame_at 9000) = 432
   \<and> rect_y (ai ball_below_ai) = 295
   \<and> rect_y (ai ai_stays) = 295"
  using run_ball_below_ai update_ball_below_ai inputs_ok_frame_at
  by (simp add: ball_below_ai_def ai_stays_def phase_of_def rect_defs frame_at_def)

section \<open>Serving and waiting\<close>

lemma step_countdown_count:
  "count_list (sounds (paddle_collision g)) Countdown_sound = count_list (sounds g) Countdown_sound"
  "count_list (sounds (check_scoring e g)) Countdown_sound = count_list (sounds g) Countdown_sound"
  "count_list (sounds (wall_collision g)) Countdown_sound = count_list (sounds g) Countdown_sound"
  by (simp_all add: paddle_collision_def check_scoring_def wall_collision_def reset_ball_def
      reset_player_def reset_ai_def)

lemma play_frame_countdown_count:
  "count_list (sounds (play_frame e g)) Countdown_sound = count_list (sounds g) Countdown_sound"
  by (simp add: play_frame_def frame_fields step_countdown_count)

lemma update_scene_countdown_count:
  assumes "update_scene e g = Inr g'"
  shows "count_list (sounds g') Countdown_sound =
    count_list (sounds g) Countdown_sound + (if serve g \<and> \<not> countdown_played g then 1 else 0)"
  using assms
proof (cases rule: update_scene_cases)
  case served
  then show ?thesis
    using countdown_step_Return(1,5)[OF served] by simp
next
  case (waited g1)
  then show ?thesis
    using countdown_step_Continue(3)[OF waited(1)] round_delay_step_Return[of e g1 g'] by simp
next
  case (played g1 g2)
  then show ?thesis
    using countdown_step_Continue(3)[OF played(1)] round_delay_step_Continue(16)[OF played(2)]
    by (simp add: play_frame_countdown_count)
qed

lemma near_centre_no_point:
  assumes "velocity_ok g" "rect_w (ball g) = 30" "200 \<le> fst (surface_size g)"
    "fst (surface_size g) div 2 - 15 - 8 \<le> rect_x (ball g)"
    "rect_x (ball g) \<le> fst (surface_size g) div 2 - 15 + 8"
  shows "\<not> scores_now (moved g)"
  using moved_x_range[OF assms(1)] assms(2-5)
  by (auto simp: scores_now_def rect_defs moved_fields)

lemma serving_call:
  assumes "GameScreen_inv sz g" "surface_ok sz" "serve g"
  shows "\<exists>started g'. update_scene e g = Inr g'
      \<and> (countdown_played g \<longrightarrow> countdown_start_time g = Some started)
      \<and> (\<not> countdown_played g \<longrightarrow> started = ticks_countdown_start e)
      \<and> countdown_start_time g' = Some started \<and> countdown_played g'
      \<and> (ticks_serve e - started < sound_length e \<longrightarrow>
            phase_of g' = Serving \<and> ball g' = ball g \<and> ball_velocity g' = ball_velocity g
            \<and> player g' = player g \<and> ai g' = ai g
            \<and> player_score g' = player_score g \<and> ai_score g' = ai_score g
            \<and> sounds g' = sounds g @ (if countdown_played g then [] else [Countdown_sound]))
      \<and> (sound_length e \<le> ticks_serve e - started \<longrightarrow>
            phase_of g' = Rallying
            \<and> g' = play_frame e
                 ((if \<not> countdown_played g
                   then g\<lparr>sounds := sounds g @ [Countdown_sound],
                          countdown_start_time := Some (ticks_countdown_start e),
                          countdown_played := True\<rparr>
                   else g)\<lparr>serve := False\<rparr>))"
proof -
  define g1 where "g1 = (if \<not> countdown_played g
                   then g\<lparr>sounds := sounds g @ [Countdown_sound],
                          countdown_start_time := Some (ticks_countdown_start e),
                          countdown_played := True\<rparr>
                   else g)"
  have inv: "countdown_ok g" "velocity_ok g" "surface_size g = sz" "rect_w (ball g) = 30"
    "phase_ok g"
    using assms(1) by (simp_all add: GameScreen_inv_def basic_inv_def shapes_ok_def)
  have "\<exists>started. countdown_start_time g1 = Some started"
  proof (cases "countdown_played g")
    case True
    then show ?thesis using inv(1) by (auto simp: g1_def countdown_ok_def)
  next
    case False
    then show ?thesis by (simp add: g1_def)
  qed
  then obtain started where st: "countdown_start_time g1 = Some started" by blast
  have st': "countdown_played g \<longrightarrow> countdown_start_time g = Some started"
    "\<not> countdown_played g \<longrightarrow> started = ticks_countdown_start e"
    using st by (auto simp: g1_def)
  have f1: "ball g1 = ball g" "ball_velocity g1 = ball_velocity g" "player g1 = player g"
    "ai g1 = ai g" "player_score g1 = player_score g" "ai_score g1 = ai_score g"
    "sounds g1 = sounds g @ (if countdown_played g then [] else [Countdown_sound])"
    "countdown_played g1" "serve g1" "wait_after_score g1 = wait_after_score g"
    "surface_size g1 = surface_size g"
    using assms(3) by (simp_all add: g1_def)
  show ?thesis
  proof (cases "ticks_serve e - started < sound_length e")
    case True
    then have "update_scene e g = Inr g1"
      using assms(3) st by (simp add: update_scene_def countdown_step_def g1_def[symmetric] Let_def)
    then show ?thesis
      using True st st' f1 by (auto simp: phase_of_def)
  next
    case False
    let ?g2 = "g1\<lparr>serve := False\<rparr>"
    have w: "\<not> wait_after_score g"
      "fst sz div 2 - 15 - 8 \<le> rect_x (ball g)" "rect_x (ball g) \<le> fst sz div 2 - 15 + 8"
      using inv(3,5) assms(3) by (simp_all add: phase_ok_def Let_def)
    have u: "update_scene e g = Inr (play_frame e ?g2)"
      using False assms(3) st w(1) f1(10)
      by (simp add: update_scene_def countdown_step_def g1_def[symmetric] Let_def
          round_delay_step_def)
    have "velocity_ok ?g2" "rect_w (ball ?g2) = 30" "200 \<le> fst (surface_size ?g2)"
      using inv assms(2) f1 by (simp_all add: velocity_ok_def surface_ok_def)
    moreover have "fst (surface_size ?g2) div 2 - 15 - 8 \<le> rect_x (ball ?g2)"
      "rect_x (ball ?g2) \<le> fst (surface_size ?g2) div 2 - 15 + 8"
      using w inv(3) f1 by simp_all
    ultimately have "\<not> scores_now (moved ?g2)" by (rule near_centre_no_point)
    from play_frame_not_scored(2)[OF this, of e] w(1) f1
    have "phase_of (play_frame e ?g2) = Rallying"
      by (simp add: phase_of_def play_frame_flags)
    moreover have "countdown_start_time (play_frame e ?g2) = Some started"
      "countdown_played (play_frame e ?g2)"
      using st f1 by (simp_all add: play_frame_flags)
    ultimately show ?thesis
      using False u st' by (auto simp: g1_def)
  qed
qed

lemma waiting_call:
  assumes "GameScreen_inv sz g" "surface_ok sz" "\<not> serve g" "wait_after_score g"
  shows "round_delay g = 1000
    \<and> (ticks_wait e - score_time g < 1000 \<longrightarrow> update_scene e g = Inr g)
    \<and> (1000 \<le> ticks_wait e - score_time g \<longrightarrow>
         (\<exists>g'. update_scene e g = Inr g' \<and> phase_of g' = Serving
            \<and> \<not> wait_after_score g' \<and> \<not> countdown_played g'
            \<and> g' = play_frame e
                 (g\<lparr>wait_after_score := False, serve := True, countdown_played := False\<rparr>)
            \<and> ball g' = ball (moved g)
            \<and> rect_y (ball g') = rect_y (ball g) + snd (ball_velocity g)
            \<and> (rect_x (ball g') = rect_x (ball g) + 8 \<or> rect_x (ball g') = rect_x (ball g) - 8)))"
proof -
  have inv: "velocity_ok g" "surface_size g = sz" "rect_w (ball g) = 30" "round_delay g = 1000"
    "phase_ok g"
    using assms(1) by (simp_all add: GameScreen_inv_def basic_inv_def shapes_ok_def)
  let ?g2 = "g\<lparr>wait_after_score := False, serve := True, countdown_played := False\<rparr>"
  have stay: "update_scene e g = Inr g" if "ticks_wait e - score_time g < 1000"
    using that assms(3,4) inv(4)
    by (simp add: update_scene_def countdown_step_def round_delay_step_def)
  have go: "\<exists>g'. update_scene e g = Inr g' \<and> phase_of g' = Serving
            \<and> \<not> wait_after_score g' \<and> \<not> countdown_played g'
            \<and> g' = play_frame e ?g2
            \<and> ball g' = ball (moved g)
            \<and> rect_y (ball g') = rect_y (ball g) + snd (ball_velocity g)
            \<and> (rect_x (ball g') = rect_x (ball g) + 8 \<or> rect_x (ball g') = rect_x (ball g) - 8)"
    if "1000 \<le> ticks_wait e - score_time g"
  proof -
    have u: "update_scene e g = Inr (play_frame e ?g2)"
      using that assms(3,4) inv(4)
      by (simp add: update_scene_def countdown_step_def round_delay_step_def)
    have x: "rect_x (ball g) = fst sz div 2 - 15"
      using inv(2,5) assms(4) by (simp add: phase_ok_def Let_def)
    have "velocity_ok ?g2" "rect_w (ball ?g2) = 30" "200 \<le> fst (surface_size ?g2)"
      using inv assms(2) by (simp_all add: velocity_ok_def surface_ok_def)
    moreover have "fst (surface_size ?g2) div 2 - 15 - 8 \<le> rect_x (ball ?g2)"
      "rect_x (ball ?g2) \<le> fst (surface_size ?g2) div 2 - 15 + 8"
      using x inv(2) by simp_all
    ultimately have n: "\<not> scores_now (moved ?g2)" by (rule near_centre_no_point)
    from play_frame_not_scored(2)[OF n, of e]
    have "phase_of (play_frame e ?g2) = Serving" "\<not> wait_after_score (play_frame e ?g2)"
      "\<not> countdown_played (play_frame e ?g2)"
      by (simp_all add: phase_of_def play_frame_flags)
    moreover have m: "ball (moved ?g2) = ball (moved g)"
      by (simp add: moved_def move_ball_def paddle_collision_def)
    then have "ball (play_frame e ?g2) = ball (moved g)"
      using play_frame_not_scored(1)[OF n, of e] by simp
    moreover have "rect_y (ball (moved g)) = rect_y (ball g) + snd (ball_velocity g)"
      by (simp add: moved_fields)
    moreover have "rect_x (ball (moved g)) = rect_x (ball g) + 8
        \<or> rect_x (ball (moved g)) = rect_x (ball g) - 8"
      by (rule moved_x_range[OF inv(1)])
    ultimately show ?thesis using u by simp
  qed
  show ?thesis using inv(4) stay go by blast
qed

text \<open>
  C4, as stated, fails: there are frames in which the scene is in the Serving state
  and the ball moves. Neither waiting step returns once its time has elapsed; the call
  goes on through the rest of \<open>update_scene\<close>. From the reachable state
  \<open>waiting_after_point\<close> the call at clock 182000 finds the delay elapsed, sets \<open>_serve\<close>,
  and ends in the Serving state, with the countdown not yet played, having moved the
  ball from the centre (360, 360) to (352, 352). From the reachable state
  \<open>countdown_running\<close>, which is Serving, the call at clock 1000 finds the countdown
  elapsed and moves the ball from (360, 360) to (368, 368).
\<close>

theorem C4_counterexample:
  "reachable (750, 750) waiting_after_point
   \<and> phase_of waiting_after_point = ScoredWaiting
   \<and> score_time waiting_after_point = 181000
   \<and> inputs_ok (frame_at 182000) \<and> ticks_wait (frame_at 182000) = 182000
   \<and> update_scene (frame_at 182000) waiting_after_point = Inr serving_again
   \<and> phase_of serving_again = Serving \<and> countdown_played serving_again = False
   \<and> ball waiting_after_point = \<lparr>rect_x = 360, rect_y = 360, rect_w = 30, rect_h = 30\<rparr>
   \<and> ball serving_again = \<lparr>rect_x = 352, rect_y = 352, rect_w = 30, rect_h = 30\<rparr>
   \<and> reachable (750, 750) countdown_running
   \<and> phase_of countdown_running = Serving
   \<and> countdown_start_time countdown_running = Some 0
   \<and> inputs_ok (frame_at 1000) \<and> ticks_serve (frame_at 1000) = 1000
   \<and> sound_length (frame_at 1000) = 1000
   \<and> update_scene (frame_at 1000) countdown_running = Inr first_frame
   \<and> ball countdown_running = \<lparr>rect_x = 360, rect_y = 360, rect_w = 30, rect_h = 30\<rparr>
   \<and> ball first_frame = \<lparr>rect_x = 368, rect_y = 368, rect_w = 30, rect_h = 30\<rparr>"
  using reachable_waiting_after_point reachable_countdown_running inputs_ok_frame_at
    update_waiting_after_point update_countdown_running
  by (simp add: waiting_after_point_def serving_again_def countdown_running_def
      first_frame_def phase_of_def frame_at_def)

text \<open>
  C4, amended: take a call of \<open>update_scene\<close> from a reachable state (surface of at least
  200 by 200). The countdown sound is played in the call that finds the scene Serving
  with the countdown not yet played, and in no other call. A call that finds the scene
  Serving returns with the countdown marked as played; while the clock is less than
  the sound's length after the start of the countdown, the scene stays Serving and the
  ball, its velocity, the paddles and the scores are as before; the call that finds
  the length elapsed sets the scene to Rallying and plays the first frame of the rally
  in the same call. A call that finds the scene in ScoredWaiting, whose delay is 1000
  ms, changes nothing while less than 1000 ms have passed since the point; the call
  that finds them elapsed sets the scene to Serving with the countdown not played and
  still plays one frame in the same call, which moves the ball one step off the centre.
\<close>

theorem C4_serving_and_waiting:
  assumes "reachable sz g" "surface_ok sz"
  shows "(\<exists>g'. update_scene e g = Inr g'
            \<and> count_list (sounds g') Countdown_sound =
                count_list (sounds g) Countdown_sound
                  + (if phase_of g = Serving \<and> \<not> countdown_played g then 1 else 0))
    \<and> (phase_of g = Serving \<longrightarrow>
         (\<exists>started g'. update_scene e g = Inr g'
            \<and> (countdown_played g \<longrightarrow> countdown_start_time g = Some started)
            \<and> (\<not> countdown_played g \<longrightarrow> started = ticks_countdown_start e)
            \<and> countdown_start_time g' = Some started \<and> countdown_played g'
            \<and> (ticks_serve e - started < sound_length e \<longrightarrow>
                  phase_of g' = Serving \<and> ball g' = ball g \<and> ball_velocity g' = ball_velocity g
                  \<and> player g' = player g \<and> ai g' = ai g
                  \<and> player_score g' = player_score g \<and> ai_score g' = ai_score g
                  \<and> sounds g' = sounds g @ (if countdown_played g then [] else [Countdown_sound]))
            \<and> (sound_length e \<le> ticks_serve e - started \<longrightarrow>
                  phase_of g' = Rallying
                  \<and> g' = play_frame e
                       ((if \<not> countdown_played g
                         then g\<lparr>sounds := sounds g @ [Countdown_sound],
                                countdown_start_time := Some (ticks_countdown_start e),
                                countdown_played := True\<rparr>
                         else g)\<lparr>serve := False\<rparr>))))
    \<and> (phase_of g = ScoredWaiting \<longrightarrow>
         round_delay g = 1000
         \<and> (ticks_wait e - score_time g < 1000 \<longrightarrow> update_scene e g = Inr g)
         \<and> (1000 \<le> ticks_wait e - score_time g \<longrightarrow>
              (\<exists>g'. update_scene e g = Inr g' \<and> phase_of g' = Serving
                 \<and> \<not> wait_after_score g' \<and> \<not> countdown_played g'
                 \<and> g' = play_frame e
                      (g\<lparr>wait_after_score := False, serve := True, countdown_played := False\<rparr>)
                 \<and> ball g' = ball (moved g)
                 \<and> rect_y (ball g') = rect_y (ball g) + snd (ball_velocity g)
                 \<and> (rect_x (ball g') = rect_x (ball g) + 8
                      \<or> rect_x (ball g') = rect_x (ball g) - 8))))"
proof -
  have i: "GameScreen_inv sz g" by (rule reachable_GameScreen_inv[OF assms])
  then obtain g' where g': "update_scene e g = Inr g'"
    using update_scene_total[of g e] by (auto simp: GameScreen_inv_def basic_inv_def)
  have p: "phase_of g = Serving \<longleftrightarrow> serve g"
    "phase_of g = ScoredWaiting \<longleftrightarrow> \<not> serve g \<and> wait_after_score g"
    by (simp_all add: phase_of_def)
  have "\<exists>g'. update_scene e g = Inr g'
            \<and> count_list (sounds g') Countdown_sound =
                count_list (sounds g) Countdown_sound
                  + (if phase_of g = Serving \<and> \<not> countdown_played g then 1 else 0)"
    using update_scene_countdown_count[OF g'] g' p(1) by simp
  moreover note serving_call[OF i assms(2), of e] waiting_call[OF i assms(2), of e]
  ultimately show ?thesis
    unfolding p by blast
qed

theorem C4_serving_and_waiting_witness:
  "reachable (750, 750) (GameScreen_init (750, 750)) \<and> surface_ok (750, 750)
   \<and> phase_of (GameScreen_init (750, 750)) = Serving
   \<and> update_scene (frame_at 0) (GameScreen_init (750, 750)) = Inr countdown_running
   \<and> phase_of countdown_running = Serving
   \<and> sounds countdown_running = [Countdown_sound]
   \<and> ball countdown_running = ball (GameScreen_init (750, 750))
   \<and> (\<exists>g'. update_scene (frame_at 500) countdown_running = Inr g' \<and> phase_of g' = Serving
         \<and> sounds g' = [Countdown_sound] \<and> ball g' = ball countdown_running)
   \<and> (\<exists>g'. update_scene (frame_at 1000) countdown_running = Inr g' \<and> phase_of g' = Rallying
         \<and> count_list (sounds g') Countdown_sound = 1)
   \<and> phase_of waiting_after_point = ScoredWaiting
   \<and> update_scene (frame_at 181999) waiting_after_point = Inr waiting_after_point
   \<and> (\<exists>g'. update_scene (frame_at 182000) waiting_after_point = Inr g'
         \<and> phase_of g' = Serving \<and> \<not> countdown_played g'
         \<and> rect_y (ball g') = 352)"
proof -
  note ok = surface_ok_750
  note t0 = C4_serving_and_waiting[OF reachable_init ok, of "frame_at 0"]
  note t1 = C4_serving_and_waiting[OF reachable_countdown_running ok, of "frame_at 500"]
  note t2 = C4_serving_and_waiting[OF reachable_countdown_running ok, of "frame_at 1000"]
  note t3 = C4_serving_and_waiting[OF reachable_waiting_after_point ok, of "frame_at 181999"]
  note t4 = C4_serving_and_waiting[OF reachable_waiting_after_point ok, of "frame_at 182000"]
  have p: "phase_of (GameScreen_init (750, 750)) = Serving"
    "phase_of countdown_running = Serving" "phase_of waiting_after_point = ScoredWaiting"
    by (simp_all add: phase_of_def GameScreen_init_def countdown_running_def
        waiting_after_point_def)
  have u0: "update_scene (frame_at 0) (GameScreen_init (750, 750)) = Inr countdown_running"
    using run_countdown_running by (simp add: frames_from_def split: sum.splits)
  have c: "countdown_played countdown_running" "countdown_start_time countdown_running = Some 0"
    "sounds countdown_running = [Countdown_sound]"
    "ball countdown_running = ball (GameScreen_init (750, 750))"
    by (simp_all add: countdown_running_def GameScreen_init_def Rect_def)
  have w: "score_time waiting_after_point = 181000" "rect_y (ball waiting_after_point) = 360"
    "snd (ball_velocity waiting_after_point) = - 8"
    by (simp_all add: waiting_after_point_def)
  have a: "\<exists>g'. update_scene (frame_at 500) countdown_running = Inr g' \<and> phase_of g' = Serving
         \<and> sounds g' = [Countdown_sound] \<and> ball g' = ball countdown_running"
    using t1 p(2) c by (auto simp: frame_at_def)
  have b: "\<exists>g'. update_scene (frame_at 1000) countdown_running = Inr g' \<and> phase_of g' = Rallying
         \<and> count_list (sounds g') Countdown_sound = 1"
    using t2 p(2) c by (auto simp: frame_at_def)
  have d: "update_scene (frame_at 181999) waiting_after_point = Inr waiting_after_point"
    using t3 p(3) w by (simp add: frame_at_def)
  have e: "\<exists>g'. update_scene (frame_at 182000) waiting_after_point = Inr g'
         \<and> phase_of g' = Serving \<and> \<not> countdown_played g' \<and> rect_y (ball g') = 352"
    using t4 p(3) w by (auto simp: frame_at_def)
  show ?thesis
    using reachable_init[of "(750, 750)"] ok p u0 c(3,4) a b d e t0 by simp
qed

section \<open>A point\<close>

lemma wall_after_point:
  assumes "scores_now g" "rect_h (ball g) = 30" "200 \<le> snd (surface_size g)"
  shows "wall_collision (check_scoring e g) = check_scoring e g"
proof -
  have "0 < snd (surface_size g) div 2 - 15"
    "snd (surface_size g) div 2 - 15 + 30 < snd (surface_size g)"
    using assms(3) by arith+
  then show ?thesis
    using check_scoring_scored(2)[OF assms(1), of e] assms(2)
    by (simp add: wall_collision_def rect_defs check_scoring_fields)
qed

lemma paddle_movement_player_cong:
  assumes "player g1 = player g2" "player_move_up g1 = player_move_up g2"
    "player_move_down g1 = player_move_down g2" "player_speed g1 = player_speed g2"
    "surface_size g1 = surface_size g2"
  shows "player (paddle_movement g1) = player (paddle_movement g2)"
  using assms by (auto simp: paddle_movement_def Let_def rect_defs)

lemma ai_rests_after_point:
  assumes "inputs_ok e" "rect_y (ball g) = snd (surface_size g) div 2 - 15"
    "rect_h (ball g) = 30" "rect_y (ai g) = snd (surface_size g) div 2 - 80"
    "rect_h (ai g) = 180"
  shows "ai (ai_paddle_movement e g) = ai g"
  using assms by (simp add: ai_paddle_movement_def Let_def rect_defs inputs_ok_def)

lemma point_in_rally:
  assumes "GameScreen_inv sz g" "surface_ok sz" "inputs_ok e" "phase_of g = Rallying"
    "scores_now (moved g)"
  shows "\<exists>g'. update_scene e g = Inr g' \<and> phase_of g' = ScoredWaiting
    \<and> ai_score g' = ai_score g + (if rect_right (ball (moved g)) < 0 then 1 else 0)
    \<and> player_score g' = player_score g + (if rect_right (ball (moved g)) < 0 then 0 else 1)
    \<and> ball g' = ball (GameScreen_init sz)
    \<and> ball_velocity g' = (8 * random_choice (fst (choice1 e)), 8 * random_choice (snd (choice1 e)))
    \<and> ai g' = ai (GameScreen_init sz)
    \<and> player g' = player (paddle_movement (reset_player g))
    \<and> score_time g' = ticks_reset1 e
    \<and> sounds g' = sounds (paddle_collision g) @ [Score_sound]"
proof -
  let ?c = "check_scoring e (moved g)"
  let ?p = "paddle_movement ?c"
  let ?a = "ai_paddle_movement e ?p"
  have s: "surface_size g = sz" "rect_w (ball g) = 30" "rect_h (ball g) = 30"
    "rect_w (player g) = 20" "rect_h (player g) = 180" "rect_w (ai g) = 20"
    "rect_h (ai g) = 180" "0 \<le> fst (surface_size g)" "200 \<le> snd (surface_size g)"
    using assms(1,2) by (auto simp: GameScreen_inv_def basic_inv_def shapes_ok_def surface_ok_def)
  have r: "\<not> serve g" "\<not> wait_after_score g"
    using assms(4) by (auto simp: phase_of_def split: if_splits)
  have u: "update_scene e g = Inr (play_frame e g)"
    by (rule update_scene_rallying[OF assms(4)])
  have w: "wall_collision ?c = ?c"
    using assms(5) s by (intro wall_after_point) (simp_all add: moved_fields)
  have eq: "play_frame e g = game_over_check ?a"
    using play_frame_eq[of g e] s w by simp
  note c = check_scoring_scored[OF assms(5), of e]
  have phase: "phase_of (play_frame e g) = ScoredWaiting"
    using play_frame_scored(3)[OF s(8) s(2) assms(5), of e] r
    by (simp add: phase_of_def play_frame_flags)
  have ball: "ball (play_frame e g) = ball (GameScreen_init sz)"
    using c(1,2) s
    by (simp add: eq frame_fields GameScreen_init_def Rect_def moved_fields rect.equality
        check_scoring_fields)
  have vel: "ball_velocity (play_frame e g) =
      (8 * random_choice (fst (choice1 e)), 8 * random_choice (snd (choice1 e)))"
    using c(3) by (simp add: eq frame_fields)
  have "ai ?a = ai ?p"
    using assms(3) c(2,9) s
    by (intro ai_rests_after_point) (simp_all add: frame_fields moved_fields)
  then have ai: "ai (play_frame e g) = ai (GameScreen_init sz)"
    using c(8,9) s
    by (simp add: eq frame_fields GameScreen_init_def Rect_def moved_fields rect.equality
        check_scoring_fields)
  have "player ?c = player (reset_player g)"
    using c(6,7) s
    by (simp add: reset_player_def rect.equality check_scoring_fields moved_fields)
  then have "player ?p = player (paddle_movement (reset_player g))"
    by (intro paddle_movement_player_cong)
      (simp_all add: check_scoring_fields moved_fields reset_player_def)
  then have pl: "player (play_frame e g) = player (paddle_movement (reset_player g))"
    by (simp add: eq frame_fields)
  have snd: "sounds (play_frame e g) = sounds (paddle_collision g) @ [Score_sound]"
    using c(10) by (simp add: eq frame_fields moved_def)
  show ?thesis
    using u phase ball vel ai pl snd play_frame_scored(4,6,7)[OF s(8) s(2) assms(5), of e]
    by simp
qed

text \<open>
  C2: when the first scoring test of \<open>update_scene\<close> fires, exactly one score goes up by
  1 (the AI's when the ball's right edge is below 0, else the player's, whose test is
  the ball's left edge beyond the width), the score sound is played, the ball is put
  at the centre of the surface, both paddles are put at their start positions, the
  velocity becomes 8 times a sign drawn for each axis on its own, and the scene waits.
  In a rally from a reachable state (surface of at least 200 by 200) the call of
  \<open>update_scene\<close> with such a point ends in the ScoredWaiting state with exactly that
  point added, the ball at the centre with that velocity, and the AI paddle at its
  start position; the player paddle is at its start position unless a movement key is
  held, which moves it one step in the rest of the same call.
\<close>

theorem C2_scoring_event:
  "(scores_now h \<longrightarrow>
      ai_score (check_scoring e h) = ai_score h + (if rect_right (ball h) < 0 then 1 else 0)
      \<and> player_score (check_scoring e h)
          = player_score h + (if rect_right (ball h) < 0 then 0 else 1)
      \<and> (\<not> rect_right (ball h) < 0 \<longrightarrow> rect_left (ball h) > fst (surface_size h))
      \<and> rect_x (ball (check_scoring e h)) = fst (surface_size h) div 2 - 15
      \<and> rect_y (ball (check_scoring e h)) = snd (surface_size h) div 2 - 15
      \<and> rect_x (player (check_scoring e h)) = rect_x (player (GameScreen_init (surface_size h)))
      \<and> rect_y (player (check_scoring e h)) = rect_y (player (GameScreen_init (surface_size h)))
      \<and> rect_x (ai (check_scoring e h)) = rect_x (ai (GameScreen_init (surface_size h)))
      \<and> rect_y (ai (check_scoring e h)) = rect_y (ai (GameScreen_init (surface_size h)))
      \<and> ball_velocity (check_scoring e h)
          = (8 * random_choice (fst (choice1 e)), 8 * random_choice (snd (choice1 e)))
      \<and> (random_choice (fst (choice1 e)) = 1 \<or> random_choice (fst (choice1 e)) = - 1)
      \<and> (random_choice (snd (choice1 e)) = 1 \<or> random_choice (snd (choice1 e)) = - 1)
      \<and> wait_after_score (check_scoring e h)
      \<and> sounds (check_scoring e h) = sounds h @ [Score_sound])
   \<and> (reachable sz g \<and> surface_ok sz \<and> inputs_ok e \<and> phase_of g = Rallying
        \<and> scores_now (moved g) \<longrightarrow>
        (\<exists>g'. update_scene e g = Inr g' \<and> phase_of g' = ScoredWaiting
           \<and> ai_score g' = ai_score g + (if rect_right (ball (moved g)) < 0 then 1 else 0)
           \<and> player_score g' = player_score g + (if rect_right (ball (moved g)) < 0 then 0 else 1)
           \<and> ball g' = ball (GameScreen_init sz)
           \<and> rect_x (ball g') + rect_w (ball g') div 2 = fst sz div 2
           \<and> rect_centery (ball g') = snd sz div 2
           \<and> ball_velocity g'
               = (8 * random_choice (fst (choice1 e)), 8 * random_choice (snd (choice1 e)))
           \<and> ai g' = ai (GameScreen_init sz)
           \<and> player g' = player (paddle_movement (reset_player g))
           \<and> (\<not> player_move_up g \<and> \<not> player_move_down g \<longrightarrow>
                 player g' = player (GameScreen_init sz))))"
proof -
  have block: "ai_score (check_scoring e h) = ai_score h + (if rect_right (ball h) < 0 then 1 else 0)
      \<and> player_score (check_scoring e h)
          = player_score h + (if rect_right (ball h) < 0 then 0 else 1)
      \<and> (\<not> rect_right (ball h) < 0 \<longrightarrow> rect_left (ball h) > fst (surface_size h))
      \<and> rect_x (ball (check_scoring e h)) = fst (surface_size h) div 2 - 15
      \<and> rect_y (ball (check_scoring e h)) = snd (surface_size h) div 2 - 15
      \<and> rect_x (player (check_scoring e h)) = rect_x (player (GameScreen_init (surface_size h)))
      \<and> rect_y (player (check_scoring e h)) = rect_y (player (GameScreen_init (surface_size h)))
      \<and> rect_x (ai (check_scoring e h)) = rect_x (ai (GameScreen_init (surface_size h)))
      \<and> rect_y (ai (check_scoring e h)) = rect_y (ai (GameScreen_init (surface_size h)))
      \<and> ball_velocity (check_scoring e h)
          = (8 * random_choice (fst (choice1 e)), 8 * random_choice (snd (choice1 e)))
      \<and> (random_choice (fst (choice1 e)) = 1 \<or> random_choice (fst (choice1 e)) = - 1)
      \<and> (random_choice (snd (choice1 e)) = 1 \<or> random_choice (snd (choice1 e)) = - 1)
      \<and> wait_after_score (check_scoring e h)
      \<and> sounds (check_scoring e h) = sounds h @ [Score_sound]"
    if "scores_now h"
    using check_scoring_scored[OF that, of e] that
    by (auto simp: GameScreen_init_def Rect_def random_choice_def scores_now_def)
  have call: "\<exists>g'. update_scene e g = Inr g' \<and> phase_of g' = ScoredWaiting
           \<and> ai_score g' = ai_score g + (if rect_right (ball (moved g)) < 0 then 1 else 0)
           \<and> player_score g' = player_score g + (if rect_right (ball (moved g)) < 0 then 0 else 1)
           \<and> ball g' = ball (GameScreen_init sz)
           \<and> rect_x (ball g') + rect_w (ball g') div 2 = fst sz div 2
           \<and> rect_centery (ball g') = snd sz div 2
           \<and> ball_velocity g'
               = (8 * random_choice (fst (choice1 e)), 8 * random_choice (snd (choice1 e)))
           \<and> ai g' = ai (GameScreen_init sz)
           \<and> player g' = player (paddle_movement (reset_player g))
           \<and> (\<not> player_move_up g \<and> \<not> player_move_down g \<longrightarrow>
                 player g' = player (GameScreen_init sz))"
    if h: "reachable sz g" "surface_ok sz" "inputs_ok e" "phase_of g = Rallying"
      "scores_now (moved g)"
  proof -
    have i: "GameScreen_inv sz g" by (rule reachable_GameScreen_inv[OF h(1,2)])
    then have s: "surface_size g = sz" "rect_w (player g) = 20" "rect_h (player g) = 180"
      by (simp_all add: GameScreen_inv_def basic_inv_def shapes_ok_def)
    from point_in_rally[OF i h(2-5)] obtain g' where g': "update_scene e g = Inr g'"
      "phase_of g' = ScoredWaiting"
      "ai_score g' = ai_score g + (if rect_right (ball (moved g)) < 0 then 1 else 0)"
      "player_score g' = player_score g + (if rect_right (ball (moved g)) < 0 then 0 else 1)"
      "ball g' = ball (GameScreen_init sz)"
      "ball_velocity g' = (8 * random_choice (fst (choice1 e)), 8 * random_choice (snd (choice1 e)))"
      "ai g' = ai (GameScreen_init sz)"
      "player g' = player (paddle_movement (reset_player g))"
      by blast
    have centre: "rect_x (ball g') + rect_w (ball g') div 2 = fst sz div 2"
      "rect_centery (ball g') = snd sz div 2"
      by (simp_all add: g'(5) GameScreen_init_def Rect_def rect_defs)
    have rest: "player g' = player (GameScreen_init sz)"
      if "\<not> player_move_up g \<and> \<not> player_move_down g"
      using that s
      by (simp add: g'(8) paddle_movement_def reset_player_def Let_def GameScreen_init_def
          Rect_def rect.equality)
    show ?thesis using g' centre rest by blast
  qed
  show ?thesis using block call by blast
qed

theorem C2_scoring_event_witness:
  "scores_now (moved match_point) \<and> rect_right (ball (moved match_point)) < 0
   \<and> reachable (750, 750) match_point \<and> surface_ok (750, 750) \<and> inputs_ok (frame_at 231000)
   \<and> phase_of match_point = Rallying
   \<and> ai_score (check_scoring (frame_at 231000) (moved match_point)) = 3
   \<and> player_score (check_scoring (frame_at 231000) (moved match_point)) = 0
   \<and> ball_velocity (check_scoring (frame_at 231000) (moved match_point)) = (- 8, - 8)
   \<and> rect_y (player (check_scoring (frame_at 231000) (moved match_point))) = 295
   \<and> (\<exists>g'. update_scene (frame_at 231000) match_point = Inr g' \<and> phase_of g' = ScoredWaiting
         \<and> ai_score g' = 3 \<and> player_score g' = 0
         \<and> ball g' = \<lparr>rect_x = 360, rect_y = 360, rect_w = 30, rect_h = 30\<rparr>
         \<and> ball_velocity g' = (- 8, - 8)
         \<and> ai g' = \<lparr>rect_x = 710, rect_y = 295, rect_w = 20, rect_h = 180\<rparr>
         \<and> player g' = \<lparr>rect_x = 30, rect_y = 295, rect_w = 20, rect_h = 180\<rparr>)"
proof -
  have m: "player_score match_point = 0" "ai_score match_point = 2"
    "phase_of match_point = Rallying" "surface_size match_point = (750, 750)"
    "\<not> player_move_up match_point" "\<not> player_move_down match_point"
    by (simp_all add: match_point_def phase_of_def)
  have c: "\<not> colliderect (ball match_point) (player match_point)"
    "\<not> colliderect (ball match_point) (ai match_point)"
    by (simp_all add: match_point_def colliderect_def)
  have r: "rect_right (ball (moved match_point)) < 0"
    using c by (simp add: rect_defs moved_fields paddle_collision_velocity)
      (simp add: match_point_def)
  then have s: "scores_now (moved match_point)" by (simp add: scores_now_def)
  have f: "choice1 (frame_at 231000) = (False, False)" by (simp add: frame_at_def)
  have i: "ball (GameScreen_init (750, 750)) = \<lparr>rect_x = 360, rect_y = 360, rect_w = 30, rect_h = 30\<rparr>"
    "ai (GameScreen_init (750, 750)) = \<lparr>rect_x = 710, rect_y = 295, rect_w = 20, rect_h = 180\<rparr>"
    "player (GameScreen_init (750, 750)) = \<lparr>rect_x = 30, rect_y = 295, rect_w = 20, rect_h = 180\<rparr>"
    "rect_y (player (GameScreen_init (750, 750))) = 295"
    by (simp_all add: GameScreen_init_def Rect_def)
  note t = C2_scoring_event[of "moved match_point" "frame_at 231000" "(750, 750)" match_point]
  have block: "ai_score (check_scoring (frame_at 231000) (moved match_point)) = 3"
    "player_score (check_scoring (frame_at 231000) (moved match_point)) = 0"
    "ball_velocity (check_scoring (frame_at 231000) (moved match_point)) = (- 8, - 8)"
    "rect_y (player (check_scoring (frame_at 231000) (moved match_point))) = 295"
    using t s r m f i(4) by (simp_all add: moved_fields random_choice_def)
  have "\<exists>g'. update_scene (frame_at 231000) match_point = Inr g' \<and> phase_of g' = ScoredWaiting
         \<and> ai_score g' = 3 \<and> player_score g' = 0
         \<and> ball g' = \<lparr>rect_x = 360, rect_y = 360, rect_w = 30, rect_h = 30\<rparr>
         \<and> ball_velocity g' = (- 8, - 8)
         \<and> ai g' = \<lparr>rect_x = 710, rect_y = 295, rect_w = 20, rect_h = 180\<rparr>
         \<and> player g' = \<lparr>rect_x = 30, rect_y = 295, rect_w = 20, rect_h = 180\<rparr>"
    using t s r m f i reachable_match_point surface_ok_750 inputs_ok_frame_at
    by (auto simp: random_choice_def)
  then show ?thesis
    using block s r m(3) reachable_match_point surface_ok_750 inputs_ok_frame_at by simp
qed

end
